theory Spec2Isabelle
  imports Complex_Main
begin

section \<open>Data model of \<open>src/utils/flightPhysics.ts\<close>\<close>

text \<open>
  Numbers of the TypeScript source are modelled as \<open>real\<close>: arithmetic is exact and every
  value is finite (no rounding, no NaN, no infinity). \<open>Math.min\<close>, \<open>Math.max\<close> and
  \<open>Math.abs\<close> are \<open>min\<close>, \<open>max\<close> and \<open>abs\<close>.

  The source computes in IEEE-754 doubles, and the model differs from it where a double
  overflows. With a large time slice the smoothed inputs (lines 188-193) overflow to an
  infinity; the damping at lines 250-252 then multiplies an infinity by zero, which is NaN;
  \<open>Math.max\<close> and \<open>Math.min\<close> (lines 260-267) return NaN on a NaN argument and the
  comparisons at lines 282-286 are false on NaN, so the clamps let it through. Over \<open>real\<close>
  none of this happens: a product with zero is zero and a clamp always lands in its range.
  The theorems below are therefore about calls in which every value stays an ordinary number;
  they say nothing about a call in which a value overflows or is NaN.

  \<open>THREE.Vector3\<close> and \<open>THREE.Euler\<close> are records of three components. The
  interface \<open>FlightControls\<close> has a field \<open>throttle\<close> like the class; the flag of the
  interface is called \<open>throttle_ctl\<close> here.
\<close>

record Vector3 =
  vec_x :: real
  vec_y :: real
  vec_z :: real

record Euler =
  eul_x :: real
  eul_y :: real
  eul_z :: real

record FlightControls =
  throttle_ctl :: bool
  brake :: bool
  left :: bool
  right :: bool
  pitchUp :: bool
  pitchDown :: bool
  yawLeft :: bool
  yawRight :: bool
  landingGear :: bool

record FlightPhysics =
  throttle :: real
  speed :: real
  position :: Vector3
  rotation :: Euler
  lift :: real
  drag :: real
  isGearDown :: bool
  isOnRunway :: bool
  isStalling :: bool
  stallSpeed :: real
  pitchInput :: real
  rollInput :: real
  yawInput :: real
  pitchTrim :: real
  rollTrim :: real
  angularVelocity :: Vector3

text \<open>The field initialisers and the constructor (lines 17-45).\<close>

definition constructor :: FlightPhysics where
  "constructor =
     \<lparr> throttle = 0, speed = 0,
       position = \<lparr> vec_x = 0, vec_y = 0.8, vec_z = - 50 \<rparr>,
       rotation = \<lparr> eul_x = 0, eul_y = 0, eul_z = 0 \<rparr>,
       lift = 0, drag = 0,
       isGearDown = True, isOnRunway = False, isStalling = False,
       stallSpeed = 0.3,
       pitchInput = 0, rollInput = 0, yawInput = 0,
       pitchTrim = 0, rollTrim = 0,
       angularVelocity = \<lparr> vec_x = 0, vec_y = 0, vec_z = 0 \<rparr> \<rparr>"

section \<open>The stages of \<open>FlightPhysics.update\<close>, in source order\<close>

text \<open>Lines 48-54: throttle controls.\<close>

definition throttleStage :: "FlightControls \<Rightarrow> real \<Rightarrow> FlightPhysics \<Rightarrow> FlightPhysics" where
  "throttleStage controls deltaTime s =
     (let s1 = (if throttle_ctl controls
                then s\<lparr>throttle := min (throttle s + 0.5 * deltaTime) 1.0\<rparr> else s)
      in (if brake controls
          then s1\<lparr>throttle := max (throttle s1 - 0.5 * deltaTime) 0.0\<rparr> else s1))"

text \<open>Lines 56-71: speed from throttle, then the stored drag is subtracted.\<close>

definition maxSpeed :: real where
  "maxSpeed = 3.5"

definition speedStage :: "real \<Rightarrow> FlightPhysics \<Rightarrow> FlightPhysics" where
  "speedStage deltaTime s =
     (let acceleration = throttle s * maxSpeed * 1.0;
          deceleration = 0.12;
          s1 = (if throttle s > 0
                then s\<lparr>speed := min (speed s + acceleration * deltaTime) (maxSpeed * throttle s)\<rparr>
                else s\<lparr>speed := max (speed s - deceleration * deltaTime) 0\<rparr>)
      in s1\<lparr>speed := max (speed s1 - drag s1 * deltaTime) 0\<rparr>)"

text \<open>Lines 73-81: runway detection and stall condition.\<close>

definition groundHeight :: real where
  "groundHeight = 0.8"

definition runwayStage :: "FlightPhysics \<Rightarrow> FlightPhysics" where
  "runwayStage s =
     (let runwayZ = (\<bar>vec_z (position s)\<bar> < 100 \<and> \<bar>vec_x (position s)\<bar> < 25);
          s1 = s\<lparr>isOnRunway := (runwayZ \<and> vec_y (position s) \<le> groundHeight + 0.1)\<rparr>
      in s1\<lparr>isStalling :=
              (speed s1 < stallSpeed s1 \<and> \<not> isOnRunway s1 \<and> vec_y (position s1) > 2)\<rparr>)"

text \<open>Lines 83-117: drag and lift.\<close>

definition angleOfAttackEffect :: "real \<Rightarrow> real" where
  "angleOfAttackEffect angleOfAttack =
     (if angleOfAttack < - 0.3 then 0.2
      else if angleOfAttack \<le> 0.35 then 1.0 + angleOfAttack * 3.0
      else 2.0 - (angleOfAttack - 0.35) * 2.0)"

definition aeroStage :: "FlightPhysics \<Rightarrow> FlightPhysics" where
  "aeroStage s =
     (let liftCoefficient = 0.3;
          dragCoefficient = 0.08;
          s1 = s\<lparr>drag := speed s * speed s * dragCoefficient\<rparr>;
          angleOfAttack = eul_x (rotation s1);
          speedFactor = speed s1 * speed s1;
          baseLift = speedFactor * liftCoefficient * max 0.1 (angleOfAttackEffect angleOfAttack)
      in (if isStalling s1 then s1\<lparr>lift := baseLift * 0.2\<rparr> else s1\<lparr>lift := baseLift\<rparr>))"

text \<open>Lines 119-136: lift and gravity applied to the altitude.\<close>

definition verticalStage :: "real \<Rightarrow> FlightPhysics \<Rightarrow> FlightPhysics" where
  "verticalStage deltaTime s =
     (let takeoffSpeed = 0.8;
          s1 = (if speed s > takeoffSpeed
                then s\<lparr>position := (position s)\<lparr>vec_y := vec_y (position s) + lift s * deltaTime\<rparr>\<rparr>
                else if speed s > 0.4
                then s\<lparr>position := (position s)\<lparr>vec_y :=
                        vec_y (position s) + lift s * deltaTime * (speed s / takeoffSpeed)\<rparr>\<rparr>
                else s)
      in (if \<not> isOnRunway s1
          then (let gravityMultiplier = (if isStalling s1 then 2.5 else 1.0);
                    baseGravity = 0.3
                in s1\<lparr>position := (position s1)\<lparr>vec_y :=
                        vec_y (position s1) - baseGravity * deltaTime * gravityMultiplier\<rparr>\<rparr>)
          else s1))"

text \<open>Lines 138-164: ground collision and ground friction.\<close>

definition groundStage :: "real \<Rightarrow> FlightPhysics \<Rightarrow> FlightPhysics" where
  "groundStage deltaTime s =
     (let minimumHeight = 0.5
      in (if vec_y (position s) < groundHeight
          then (let s1 = s\<lparr>position := (position s)\<lparr>vec_y := max groundHeight minimumHeight\<rparr>\<rparr>
                in (if isOnRunway s1
                    then (let s2 = s1\<lparr>speed := max (speed s1 - 0.2 * deltaTime) 0\<rparr>;
                              s3 = s2\<lparr>angularVelocity := (angularVelocity s2)
                                     \<lparr>vec_x := vec_x (angularVelocity s2) * 0.92\<rparr>\<rparr>;
                              s4 = s3\<lparr>angularVelocity := (angularVelocity s3)
                                     \<lparr>vec_z := vec_z (angularVelocity s3) * 0.92\<rparr>\<rparr>
                          in (if speed s4 < 0.3
                              then (let groundAttitude = 0.08;
                                        attitudeForce =
                                          (groundAttitude - eul_x (rotation s4)) * 0.5 * deltaTime
                                    in s4\<lparr>angularVelocity := (angularVelocity s4)
                                          \<lparr>vec_x := vec_x (angularVelocity s4) + attitudeForce\<rparr>\<rparr>)
                              else s4))
                    else s1\<lparr>speed := max (speed s1 - 0.8 * deltaTime) 0\<rparr>))
          else s))"

text \<open>Lines 166-193: smoothed control inputs.\<close>

definition targetPitchInput :: "FlightControls \<Rightarrow> real" where
  "targetPitchInput controls =
     (if pitchUp controls then - 1.0 else if pitchDown controls then 1.0 else 0.0)"

definition targetRollInput :: "FlightControls \<Rightarrow> real" where
  "targetRollInput controls =
     (if right controls then 1.0 else if left controls then - 1.0 else 0.0)"

definition targetYawInput :: "FlightControls \<Rightarrow> real" where
  "targetYawInput controls =
     (if yawRight controls then 1.0 else if yawLeft controls then - 1.0 else 0.0)"

definition smoothingStage :: "FlightControls \<Rightarrow> real \<Rightarrow> FlightPhysics \<Rightarrow> FlightPhysics" where
  "smoothingStage controls deltaTime s =
     (let controlSmoothingFactor = 15.0
      in s\<lparr>pitchInput := pitchInput s
               + (targetPitchInput controls - pitchInput s) * controlSmoothingFactor * deltaTime,
            rollInput := rollInput s
               + (targetRollInput controls - rollInput s) * controlSmoothingFactor * deltaTime,
            yawInput := yawInput s
               + (targetYawInput controls - yawInput s) * controlSmoothingFactor * deltaTime\<rparr>)"

text \<open>Lines 195-207: the auto-trim system.\<close>

definition pitchTrimStage :: "real \<Rightarrow> FlightPhysics \<Rightarrow> FlightPhysics" where
  "pitchTrimStage deltaTime s =
     (if \<bar>pitchInput s\<bar> < 0.1 \<and> speed s > 0.4
      then (let trimRate = 0.3 * deltaTime;
                s1 = s\<lparr>pitchTrim := pitchTrim s + eul_x (rotation s) * trimRate\<rparr>
            in s1\<lparr>pitchTrim := max (- 0.3) (min 0.3 (pitchTrim s1))\<rparr>)
      else s)"

definition rollTrimStage :: "real \<Rightarrow> FlightPhysics \<Rightarrow> FlightPhysics" where
  "rollTrimStage deltaTime s =
     (if \<bar>rollInput s\<bar> < 0.1 \<and> speed s > 0.4
      then (let trimRate = 0.5 * deltaTime;
                s1 = s\<lparr>rollTrim := rollTrim s + eul_z (rotation s) * trimRate\<rparr>
            in s1\<lparr>rollTrim := max (- 0.2) (min 0.2 (rollTrim s1))\<rparr>)
      else s)"

text \<open>
  Lines 172 and 209-246: control forces and stability forces on the angular velocity.
  \<open>speedEffectiveness\<close> is computed once at line 172, after the ground stage; the speed
  does not change between there and its uses.
\<close>

definition minControlSpeed :: real where
  "minControlSpeed = 0.1"

definition speedEffectiveness :: "FlightPhysics \<Rightarrow> real" where
  "speedEffectiveness s = min 1.0 (max 0.1 (speed s / 0.6))"

definition controlForceStage :: "real \<Rightarrow> real \<Rightarrow> FlightPhysics \<Rightarrow> FlightPhysics" where
  "controlForceStage eff deltaTime s =
     (let controlSensitivity = 1.0
      in (if speed s > minControlSpeed
          then (let pitchForce = pitchInput s * controlSensitivity * eff * 1.0;
                    rollForce = rollInput s * controlSensitivity * eff * 1.4;
                    yawForce = yawInput s * controlSensitivity * eff * 0.8
                in s\<lparr>angularVelocity :=
                      \<lparr> vec_x = vec_x (angularVelocity s) + pitchForce * deltaTime,
                        vec_y = vec_y (angularVelocity s) + yawForce * deltaTime,
                        vec_z = vec_z (angularVelocity s) + rollForce * deltaTime \<rparr>\<rparr>)
          else s))"

definition stabilityStage :: "real \<Rightarrow> real \<Rightarrow> FlightPhysics \<Rightarrow> FlightPhysics" where
  "stabilityStage eff deltaTime s =
     (if speed s > minControlSpeed
      then (let stabilityStrength = eff * 0.6;
                targetPitch = pitchTrim s;
                pitchStabilityForce = - (eul_x (rotation s) - targetPitch) * stabilityStrength * 1.2;
                targetRoll = rollTrim s;
                rollStabilityForce = - (eul_z (rotation s) - targetRoll) * stabilityStrength * 1.8;
                yawStabilityForce = - eul_y (rotation s) * stabilityStrength * 0.5
            in s\<lparr>angularVelocity :=
                  \<lparr> vec_x = vec_x (angularVelocity s) + pitchStabilityForce * deltaTime,
                    vec_y = vec_y (angularVelocity s) + yawStabilityForce * deltaTime,
                    vec_z = vec_z (angularVelocity s) + rollStabilityForce * deltaTime \<rparr>\<rparr>)
      else s)"

text \<open>Lines 248-267: damping, integration of the rotation, attitude limits.\<close>

definition dampingStage :: "real \<Rightarrow> FlightPhysics \<Rightarrow> FlightPhysics" where
  "dampingStage deltaTime s =
     (let dampingFactor = 2.8
      in s\<lparr>angularVelocity :=
            \<lparr> vec_x = vec_x (angularVelocity s) * max 0 (1 - dampingFactor * deltaTime),
              vec_y = vec_y (angularVelocity s) * max 0 (1 - dampingFactor * deltaTime),
              vec_z = vec_z (angularVelocity s) * max 0 (1 - dampingFactor * deltaTime) \<rparr>\<rparr>)"

definition rotationStage :: "real \<Rightarrow> FlightPhysics \<Rightarrow> FlightPhysics" where
  "rotationStage deltaTime s =
     (let r = \<lparr> eul_x = eul_x (rotation s) + vec_x (angularVelocity s) * deltaTime,
                eul_y = eul_y (rotation s) + vec_y (angularVelocity s) * deltaTime,
                eul_z = eul_z (rotation s) + vec_z (angularVelocity s) * deltaTime \<rparr>
      in s\<lparr>rotation :=
            \<lparr> eul_x = max (- pi / 3) (min (pi / 3) (eul_x r)),
              eul_y = eul_y r,
              eul_z = max (- pi / 2) (min (pi / 2) (eul_z r)) \<rparr>\<rparr>)"

text \<open>
  Lines 269-273: the landing gear toggle. It is the only statement of \<open>update\<close> that
  writes to the caller's control record, so the stage returns the record as well.
\<close>

definition gearStage :: "FlightControls \<Rightarrow> FlightPhysics \<Rightarrow> FlightPhysics \<times> FlightControls" where
  "gearStage controls s =
     (if landingGear controls
      then (s\<lparr>isGearDown := \<not> isGearDown s\<rparr>, controls\<lparr>landingGear := False\<rparr>)
      else (s, controls))"

text \<open>
  Lines 275-279: translation. \<open>Vector3.applyEuler\<close> belongs to the three.js library, not
  to this repository. For an Euler angle of the default order \<open>XYZ\<close> it multiplies by the
  rotation matrix \<open>Rx * Ry * Rz\<close>; \<open>applyEuler\<close> below is that product applied to a vector.
\<close>

definition applyEuler :: "Euler \<Rightarrow> Vector3 \<Rightarrow> Vector3" where
  "applyEuler e v =
     (let a = cos (eul_x e); b = sin (eul_x e);
          c = cos (eul_y e); d = sin (eul_y e);
          e' = cos (eul_z e); f = sin (eul_z e)
      in \<lparr> vec_x = c * e' * vec_x v - c * f * vec_y v + d * vec_z v,
           vec_y = (a * f + b * e' * d) * vec_x v + (a * e' - b * f * d) * vec_y v
                     - b * c * vec_z v,
           vec_z = (b * f - a * e' * d) * vec_x v + (b * e' + a * f * d) * vec_y v
                     + a * c * vec_z v \<rparr>)"

definition forwardVector :: "FlightPhysics \<Rightarrow> Vector3" where
  "forwardVector s = applyEuler (rotation s) \<lparr> vec_x = 0, vec_y = 0, vec_z = 1 \<rparr>"

definition moveStage :: "FlightPhysics \<Rightarrow> FlightPhysics" where
  "moveStage s =
     s\<lparr>position := (position s)
         \<lparr> vec_x := vec_x (position s) + vec_x (forwardVector s) * speed s,
           vec_z := vec_z (position s) + vec_z (forwardVector s) * speed s \<rparr>\<rparr>"

text \<open>Lines 281-286: the world bounds.\<close>

definition wrapZ :: "real \<Rightarrow> real" where
  "wrapZ pz = (let z1 = (if pz > 800 then - 800 else pz) in if z1 < - 800 then 800 else z1)"

definition wrapX :: "real \<Rightarrow> real" where
  "wrapX px = (let x1 = (if px > 800 then - 800 else px) in if x1 < - 800 then 800 else x1)"

definition boundsStage :: "FlightPhysics \<Rightarrow> FlightPhysics" where
  "boundsStage s =
     s\<lparr>position :=
         \<lparr> vec_x = wrapX (vec_x (position s)),
           vec_y = (if vec_y (position s) > 200 then 200 else vec_y (position s)),
           vec_z = wrapZ (vec_z (position s)) \<rparr>\<rparr>"

text \<open>The state after line 71 (propulsion), after line 136 and after line 164.\<close>

definition afterPropulsion :: "FlightControls \<Rightarrow> real \<Rightarrow> FlightPhysics \<Rightarrow> FlightPhysics" where
  "afterPropulsion controls deltaTime s = speedStage deltaTime (throttleStage controls deltaTime s)"

definition afterVertical :: "FlightControls \<Rightarrow> real \<Rightarrow> FlightPhysics \<Rightarrow> FlightPhysics" where
  "afterVertical controls deltaTime s =
     verticalStage deltaTime (aeroStage (runwayStage (afterPropulsion controls deltaTime s)))"

definition afterGround :: "FlightControls \<Rightarrow> real \<Rightarrow> FlightPhysics \<Rightarrow> FlightPhysics" where
  "afterGround controls deltaTime s = groundStage deltaTime (afterVertical controls deltaTime s)"

text \<open>The state after line 207 (smoothing and trim) and after line 267 (attitude).\<close>

definition afterTrim :: "FlightControls \<Rightarrow> real \<Rightarrow> FlightPhysics \<Rightarrow> FlightPhysics" where
  "afterTrim controls deltaTime s =
     rollTrimStage deltaTime (pitchTrimStage deltaTime
       (smoothingStage controls deltaTime (afterGround controls deltaTime s)))"

definition afterAttitude :: "FlightControls \<Rightarrow> real \<Rightarrow> FlightPhysics \<Rightarrow> FlightPhysics" where
  "afterAttitude controls deltaTime s =
     (let eff = speedEffectiveness (afterGround controls deltaTime s)
      in rotationStage deltaTime (dampingStage deltaTime
           (stabilityStage eff deltaTime (controlForceStage eff deltaTime
              (afterTrim controls deltaTime s)))))"

text \<open>
  \<open>update\<close> (lines 47-287). The method mutates \<open>this\<close> and \<open>controls\<close>; the model returns
  both.
\<close>

definition update :: "FlightControls \<Rightarrow> real \<Rightarrow> FlightPhysics \<Rightarrow> FlightPhysics \<times> FlightControls" where
  "update controls deltaTime s =
     (case gearStage controls (afterAttitude controls deltaTime s) of
        (s1, controls1) \<Rightarrow> (boundsStage (moveStage s1), controls1))"

text \<open>A sequence of calls, each with its own control record and time slice.\<close>

fun run :: "(FlightControls \<times> real) list \<Rightarrow> FlightPhysics \<Rightarrow> FlightPhysics" where
  "run [] s = s"
| "run ((controls, deltaTime) # rest) s = run rest (fst (update controls deltaTime s))"

text \<open>The control record of the caller before any key is pressed.\<close>

definition idleControls :: FlightControls where
  "idleControls =
     \<lparr> throttle_ctl = False, brake = False, left = False, right = False, pitchUp = False,
       pitchDown = False, yawLeft = False, yawRight = False, landingGear = False \<rparr>"

text \<open>
  States used to evaluate \<open>update\<close>: level flight at altitude 10 one unit before the
  northern world bound, and the start position moved sideways off the runway.
\<close>

definition wrapState :: FlightPhysics where
  "wrapState = constructor\<lparr>speed := 3, drag := 0.72,
      position := \<lparr> vec_x = 0, vec_y = 10, vec_z = 799 \<rparr>\<rparr>"

definition offRunwayState :: FlightPhysics where
  "offRunwayState = constructor\<lparr>position := \<lparr> vec_x = 30, vec_y = 0.8, vec_z = - 50 \<rparr>\<rparr>"

text \<open>
  The states of the stall rule: the constructor's state lifted to altitude 10, at speed 0.2
  and at speed 0.5 (throttle zero, stored drag zero).
\<close>

definition slowState :: FlightPhysics where
  "slowState = constructor\<lparr>speed := 0.2,
      position := \<lparr> vec_x = 0, vec_y = 10, vec_z = - 50 \<rparr>\<rparr>"

definition fastState :: FlightPhysics where
  "fastState = constructor\<lparr>speed := 0.5,
      position := \<lparr> vec_x = 0, vec_y = 10, vec_z = - 50 \<rparr>\<rparr>"

text \<open>
  Two more states: on the runway with full throttle at speed 1, and in flight at altitude 10
  with pitch 0.1, roll 0.05, pitch trim 0.2 and roll trim 0.1.
\<close>

definition taxiState :: FlightPhysics where
  "taxiState = constructor\<lparr>throttle := 1, speed := 1\<rparr>"

definition trimState :: FlightPhysics where
  "trimState = constructor\<lparr>speed := 1,
      position := \<lparr> vec_x = 0, vec_y = 10, vec_z = - 50 \<rparr>,
      rotation := \<lparr> eul_x = 0.1, eul_y = 0, eul_z = 0.05 \<rparr>,
      pitchTrim := 0.2, rollTrim := 0.1\<rparr>"

text \<open>
  Notation for the bounds on a state: \<open>inBounds\<close> lists the bounds on throttle, speed,
  attitude, trim and position; \<open>grounded\<close> adds that the altitude is at least the ground
  height, the stored drag is not negative and the speed is at most \<open>maxSpeed * throttle\<close>
  unless the throttle is zero.
\<close>

abbreviation inBounds :: "FlightPhysics \<Rightarrow> bool" where
  "inBounds s \<equiv>
     0 \<le> throttle s \<and> throttle s \<le> 1 \<and> 0 \<le> speed s
     \<and> - pi / 3 \<le> eul_x (rotation s) \<and> eul_x (rotation s) \<le> pi / 3
     \<and> - pi / 2 \<le> eul_z (rotation s) \<and> eul_z (rotation s) \<le> pi / 2
     \<and> - 0.3 \<le> pitchTrim s \<and> pitchTrim s \<le> 0.3
     \<and> - 0.2 \<le> rollTrim s \<and> rollTrim s \<le> 0.2
     \<and> - 800 \<le> vec_x (position s) \<and> vec_x (position s) \<le> 800
     \<and> - 800 \<le> vec_z (position s) \<and> vec_z (position s) \<le> 800
     \<and> vec_y (position s) \<le> 200"

abbreviation grounded :: "FlightPhysics \<Rightarrow> bool" where
  "grounded s \<equiv>
     0.8 \<le> vec_y (position s) \<and> 0 \<le> drag s
     \<and> (throttle s = 0 \<or> speed s \<le> 3.5 * throttle s)"

section \<open>Frame lemmas: the fields each stage leaves alone\<close>

lemma throttleStage_frame [simp]:
  "speed (throttleStage controls deltaTime s) = speed s"
  "position (throttleStage controls deltaTime s) = position s"
  "rotation (throttleStage controls deltaTime s) = rotation s"
  "lift (throttleStage controls deltaTime s) = lift s"
  "drag (throttleStage controls deltaTime s) = drag s"
  "isGearDown (throttleStage controls deltaTime s) = isGearDown s"
  "isOnRunway (throttleStage controls deltaTime s) = isOnRunway s"
  "isStalling (throttleStage controls deltaTime s) = isStalling s"
  "stallSpeed (throttleStage controls deltaTime s) = stallSpeed s"
  "pitchInput (throttleStage controls deltaTime s) = pitchInput s"
  "rollInput (throttleStage controls deltaTime s) = rollInput s"
  "yawInput (throttleStage controls deltaTime s) = yawInput s"
  "pitchTrim (throttleStage controls deltaTime s) = pitchTrim s"
  "rollTrim (throttleStage controls deltaTime s) = rollTrim s"
  "angularVelocity (throttleStage controls deltaTime s) = angularVelocity s"
  by (simp_all add: throttleStage_def Let_def)

lemma speedStage_frame [simp]:
  "throttle (speedStage deltaTime s) = throttle s"
  "position (speedStage deltaTime s) = position s"
  "rotation (speedStage deltaTime s) = rotation s"
  "lift (speedStage deltaTime s) = lift s"
  "drag (speedStage deltaTime s) = drag s"
  "isGearDown (speedStage deltaTime s) = isGearDown s"
  "isOnRunway (speedStage deltaTime s) = isOnRunway s"
  "isStalling (speedStage deltaTime s) = isStalling s"
  "stallSpeed (speedStage deltaTime s) = stallSpeed s"
  "pitchInput (speedStage deltaTime s) = pitchInput s"
  "rollInput (speedStage deltaTime s) = rollInput s"
  "yawInput (speedStage deltaTime s) = yawInput s"
  "pitchTrim (speedStage deltaTime s) = pitchTrim s"
  "rollTrim (speedStage deltaTime s) = rollTrim s"
  "angularVelocity (speedStage deltaTime s) = angularVelocity s"
  by (simp_all add: speedStage_def Let_def)

lemma runwayStage_frame [simp]:
  "throttle (runwayStage s) = throttle s"
  "speed (runwayStage s) = speed s"
  "position (runwayStage s) = position s"
  "rotation (runwayStage s) = rotation s"
  "lift (runwayStage s) = lift s"
  "drag (runwayStage s) = drag s"
  "isGearDown (runwayStage s) = isGearDown s"
  "stallSpeed (runwayStage s) = stallSpeed s"
  "pitchInput (runwayStage s) = pitchInput s"
  "rollInput (runwayStage s) = rollInput s"
  "yawInput (runwayStage s) = yawInput s"
  "pitchTrim (runwayStage s) = pitchTrim s"
  "rollTrim (runwayStage s) = rollTrim s"
  "angularVelocity (runwayStage s) = angularVelocity s"
  by (simp_all add: runwayStage_def Let_def)

lemma aeroStage_frame [simp]:
  "throttle (aeroStage s) = throttle s"
  "speed (aeroStage s) = speed s"
  "position (aeroStage s) = position s"
  "rotation (aeroStage s) = rotation s"
  "isGearDown (aeroStage s) = isGearDown s"
  "isOnRunway (aeroStage s) = isOnRunway s"
  "isStalling (aeroStage s) = isStalling s"
  "stallSpeed (aeroStage s) = stallSpeed s"
  "pitchInput (aeroStage s) = pitchInput s"
  "rollInput (aeroStage s) = rollInput s"
  "yawInput (aeroStage s) = yawInput s"
  "pitchTrim (aeroStage s) = pitchTrim s"
  "rollTrim (aeroStage s) = rollTrim s"
  "angularVelocity (aeroStage s) = angularVelocity s"
  by (simp_all add: aeroStage_def Let_def)

lemma verticalStage_frame [simp]:
  "throttle (verticalStage deltaTime s) = throttle s"
  "speed (verticalStage deltaTime s) = speed s"
  "rotation (verticalStage deltaTime s) = rotation s"
  "lift (verticalStage deltaTime s) = lift s"
  "drag (verticalStage deltaTime s) = drag s"
  "isGearDown (verticalStage deltaTime s) = isGearDown s"
  "isOnRunway (verticalStage deltaTime s) = isOnRunway s"
  "isStalling (verticalStage deltaTime s) = isStalling s"
  "stallSpeed (verticalStage deltaTime s) = stallSpeed s"
  "pitchInput (verticalStage deltaTime s) = pitchInput s"
  "rollInput (verticalStage deltaTime s) = rollInput s"
  "yawInput (verticalStage deltaTime s) = yawInput s"
  "pitchTrim (verticalStage deltaTime s) = pitchTrim s"
  "rollTrim (verticalStage deltaTime s) = rollTrim s"
  "angularVelocity (verticalStage deltaTime s) = angularVelocity s"
  by (simp_all add: verticalStage_def Let_def)

lemma groundStage_frame [simp]:
  "throttle (groundStage deltaTime s) = throttle s"
  "rotation (groundStage deltaTime s) = rotation s"
  "lift (groundStage deltaTime s) = lift s"
  "drag (groundStage deltaTime s) = drag s"
  "isGearDown (groundStage deltaTime s) = isGearDown s"
  "isOnRunway (groundStage deltaTime s) = isOnRunway s"
  "isStalling (groundStage deltaTime s) = isStalling s"
  "stallSpeed (groundStage deltaTime s) = stallSpeed s"
  "pitchInput (groundStage deltaTime s) = pitchInput s"
  "rollInput (groundStage deltaTime s) = rollInput s"
  "yawInput (groundStage deltaTime s) = yawInput s"
  "pitchTrim (groundStage deltaTime s) = pitchTrim s"
  "rollTrim (groundStage deltaTime s) = rollTrim s"
  by (simp_all add: groundStage_def Let_def)

lemma smoothingStage_frame [simp]:
  "throttle (smoothingStage controls deltaTime s) = throttle s"
  "speed (smoothingStage controls deltaTime s) = speed s"
  "position (smoothingStage controls deltaTime s) = position s"
  "rotation (smoothingStage controls deltaTime s) = rotation s"
  "lift (smoothingStage controls deltaTime s) = lift s"
  "drag (smoothingStage controls deltaTime s) = drag s"
  "isGearDown (smoothingStage controls deltaTime s) = isGearDown s"
  "isOnRunway (smoothingStage controls deltaTime s) = isOnRunway s"
  "isStalling (smoothingStage controls deltaTime s) = isStalling s"
  "stallSpeed (smoothingStage controls deltaTime s) = stallSpeed s"
  "pitchTrim (smoothingStage controls deltaTime s) = pitchTrim s"
  "rollTrim (smoothingStage controls deltaTime s) = rollTrim s"
  "angularVelocity (smoothingStage controls deltaTime s) = angularVelocity s"
  by (simp_all add: smoothingStage_def Let_def)

lemma pitchTrimStage_frame [simp]:
  "throttle (pitchTrimStage deltaTime s) = throttle s"
  "speed (pitchTrimStage deltaTime s) = speed s"
  "position (pitchTrimStage deltaTime s) = position s"
  "rotation (pitchTrimStage deltaTime s) = rotation s"
  "lift (pitchTrimStage deltaTime s) = lift s"
  "drag (pitchTrimStage deltaTime s) = drag s"
  "isGearDown (pitchTrimStage deltaTime s) = isGearDown s"
  "isOnRunway (pitchTrimStage deltaTime s) = isOnRunway s"
  "isStalling (pitchTrimStage deltaTime s) = isStalling s"
  "stallSpeed (pitchTrimStage deltaTime s) = stallSpeed s"
  "pitchInput (pitchTrimStage deltaTime s) = pitchInput s"
  "rollInput (pitchTrimStage deltaTime s) = rollInput s"
  "yawInput (pitchTrimStage deltaTime s) = yawInput s"
  "rollTrim (pitchTrimStage deltaTime s) = rollTrim s"
  "angularVelocity (pitchTrimStage deltaTime s) = angularVelocity s"
  by (simp_all add: pitchTrimStage_def Let_def)

lemma rollTrimStage_frame [simp]:
  "throttle (rollTrimStage deltaTime s) = throttle s"
  "speed (rollTrimStage deltaTime s) = speed s"
  "position (rollTrimStage deltaTime s) = position s"
  "rotation (rollTrimStage deltaTime s) = rotation s"
  "lift (rollTrimStage deltaTime s) = lift s"
  "drag (rollTrimStage deltaTime s) = drag s"
  "isGearDown (rollTrimStage deltaTime s) = isGearDown s"
  "isOnRunway (rollTrimStage deltaTime s) = isOnRunway s"
  "isStalling (rollTrimStage deltaTime s) = isStalling s"
  "stallSpeed (rollTrimStage deltaTime s) = stallSpeed s"
  "pitchInput (rollTrimStage deltaTime s) = pitchInput s"
  "rollInput (rollTrimStage deltaTime s) = rollInput s"
  "yawInput (rollTrimStage deltaTime s) = yawInput s"
  "pitchTrim (rollTrimStage deltaTime s) = pitchTrim s"
  "angularVelocity (rollTrimStage deltaTime s) = angularVelocity s"
  by (simp_all add: rollTrimStage_def Let_def)

lemma controlForceStage_frame [simp]:
  "throttle (controlForceStage eff deltaTime s) = throttle s"
  "speed (controlForceStage eff deltaTime s) = speed s"
  "position (controlForceStage eff deltaTime s) = position s"
  "rotation (controlForceStage eff deltaTime s) = rotation s"
  "lift (controlForceStage eff deltaTime s) = lift s"
  "drag (controlForceStage eff deltaTime s) = drag s"
  "isGearDown (controlForceStage eff deltaTime s) = isGearDown s"
  "isOnRunway (controlForceStage eff deltaTime s) = isOnRunway s"
  "isStalling (controlForceStage eff deltaTime s) = isStalling s"
  "stallSpeed (controlForceStage eff deltaTime s) = stallSpeed s"
  "pitchInput (controlForceStage eff deltaTime s) = pitchInput s"
  "rollInput (controlForceStage eff deltaTime s) = rollInput s"
  "yawInput (controlForceStage eff deltaTime s) = yawInput s"
  "pitchTrim (controlForceStage eff deltaTime s) = pitchTrim s"
  "rollTrim (controlForceStage eff deltaTime s) = rollTrim s"
  by (simp_all add: controlForceStage_def Let_def)

lemma stabilityStage_frame [simp]:
  "throttle (stabilityStage eff deltaTime s) = throttle s"
  "speed (stabilityStage eff deltaTime s) = speed s"
  "position (stabilityStage eff deltaTime s) = position s"
  "rotation (stabilityStage eff deltaTime s) = rotation s"
  "lift (stabilityStage eff deltaTime s) = lift s"
  "drag (stabilityStage eff deltaTime s) = drag s"
  "isGearDown (stabilityStage eff deltaTime s) = isGearDown s"
  "isOnRunway (stabilityStage eff deltaTime s) = isOnRunway s"
  "isStalling (stabilityStage eff deltaTime s) = isStalling s"
  "stallSpeed (stabilityStage eff deltaTime s) = stallSpeed s"
  "pitchInput (stabilityStage eff deltaTime s) = pitchInput s"
  "rollInput (stabilityStage eff deltaTime s) = rollInput s"
  "yawInput (stabilityStage eff deltaTime s) = yawInput s"
  "pitchTrim (stabilityStage eff deltaTime s) = pitchTrim s"
  "rollTrim (stabilityStage eff deltaTime s) = rollTrim s"
  by (simp_all add: stabilityStage_def Let_def)

lemma dampingStage_frame [simp]:
  "throttle (dampingStage deltaTime s) = throttle s"
  "speed (dampingStage deltaTime s) = speed s"
  "position (dampingStage deltaTime s) = position s"
  "rotation (dampingStage deltaTime s) = rotation s"
  "lift (dampingStage deltaTime s) = lift s"
  "drag (dampingStage deltaTime s) = drag s"
  "isGearDown (dampingStage deltaTime s) = isGearDown s"
  "isOnRunway (dampingStage deltaTime s) = isOnRunway s"
  "isStalling (dampingStage deltaTime s) = isStalling s"
  "stallSpeed (dampingStage deltaTime s) = stallSpeed s"
  "pitchInput (dampingStage deltaTime s) = pitchInput s"
  "rollInput (dampingStage deltaTime s) = rollInput s"
  "yawInput (dampingStage deltaTime s) = yawInput s"
  "pitchTrim (dampingStage deltaTime s) = pitchTrim s"
  "rollTrim (dampingStage deltaTime s) = rollTrim s"
  by (simp_all add: dampingStage_def Let_def)

lemma rotationStage_frame [simp]:
  "throttle (rotationStage deltaTime s) = throttle s"
  "speed (rotationStage deltaTime s) = speed s"
  "position (rotationStage deltaTime s) = position s"
  "lift (rotationStage deltaTime s) = lift s"
  "drag (rotationStage deltaTime s) = drag s"
  "isGearDown (rotationStage deltaTime s) = isGearDown s"
  "isOnRunway (rotationStage deltaTime s) = isOnRunway s"
  "isStalling (rotationStage deltaTime s) = isStalling s"
  "stallSpeed (rotationStage deltaTime s) = stallSpeed s"
  "pitchInput (rotationStage deltaTime s) = pitchInput s"
  "rollInput (rotationStage deltaTime s) = rollInput s"
  "yawInput (rotationStage deltaTime s) = yawInput s"
  "pitchTrim (rotationStage deltaTime s) = pitchTrim s"
  "rollTrim (rotationStage deltaTime s) = rollTrim s"
  "angularVelocity (rotationStage deltaTime s) = angularVelocity s"
  by (simp_all add: rotationStage_def Let_def)

lemma moveStage_frame [simp]:
  "throttle (moveStage s) = throttle s"
  "speed (moveStage s) = speed s"
  "rotation (moveStage s) = rotation s"
  "lift (moveStage s) = lift s"
  "drag (moveStage s) = drag s"
  "isGearDown (moveStage s) = isGearDown s"
  "isOnRunway (moveStage s) = isOnRunway s"
  "isStalling (moveStage s) = isStalling s"
  "stallSpeed (moveStage s) = stallSpeed s"
  "pitchInput (moveStage s) = pitchInput s"
  "rollInput (moveStage s) = rollInput s"
  "yawInput (moveStage s) = yawInput s"
  "pitchTrim (moveStage s) = pitchTrim s"
  "rollTrim (moveStage s) = rollTrim s"
  "angularVelocity (moveStage s) = angularVelocity s"
  by (simp_all add: moveStage_def Let_def)

lemma boundsStage_frame [simp]:
  "throttle (boundsStage s) = throttle s"
  "speed (boundsStage s) = speed s"
  "rotation (boundsStage s) = rotation s"
  "lift (boundsStage s) = lift s"
  "drag (boundsStage s) = drag s"
  "isGearDown (boundsStage s) = isGearDown s"
  "isOnRunway (boundsStage s) = isOnRunway s"
  "isStalling (boundsStage s) = isStalling s"
  "stallSpeed (boundsStage s) = stallSpeed s"
  "pitchInput (boundsStage s) = pitchInput s"
  "rollInput (boundsStage s) = rollInput s"
  "yawInput (boundsStage s) = yawInput s"
  "pitchTrim (boundsStage s) = pitchTrim s"
  "rollTrim (boundsStage s) = rollTrim s"
  "angularVelocity (boundsStage s) = angularVelocity s"
  by (simp_all add: boundsStage_def Let_def)

lemma gearStage_frame [simp]:
  "throttle (fst (gearStage controls s)) = throttle s"
  "speed (fst (gearStage controls s)) = speed s"
  "position (fst (gearStage controls s)) = position s"
  "rotation (fst (gearStage controls s)) = rotation s"
  "lift (fst (gearStage controls s)) = lift s"
  "drag (fst (gearStage controls s)) = drag s"
  "isOnRunway (fst (gearStage controls s)) = isOnRunway s"
  "isStalling (fst (gearStage controls s)) = isStalling s"
  "stallSpeed (fst (gearStage controls s)) = stallSpeed s"
  "pitchInput (fst (gearStage controls s)) = pitchInput s"
  "rollInput (fst (gearStage controls s)) = rollInput s"
  "yawInput (fst (gearStage controls s)) = yawInput s"
  "pitchTrim (fst (gearStage controls s)) = pitchTrim s"
  "rollTrim (fst (gearStage controls s)) = rollTrim s"
  "angularVelocity (fst (gearStage controls s)) = angularVelocity s"
  by (simp_all add: gearStage_def)

lemma gearStage_isGearDown:
  "isGearDown (fst (gearStage controls s)) = (if landingGear controls then \<not> isGearDown s else isGearDown s)"
  by (simp add: gearStage_def)

lemma gearStage_controls:
  "snd (gearStage controls s) = controls\<lparr>landingGear := False\<rparr>"
  by (cases controls) (simp add: gearStage_def)

lemma update_fst: "fst (update controls deltaTime s) =
   boundsStage (moveStage (fst (gearStage controls (afterAttitude controls deltaTime s))))"
  by (simp add: update_def split: prod.splits)

lemma update_snd: "snd (update controls deltaTime s) =
   snd (gearStage controls (afterAttitude controls deltaTime s))"
  by (simp add: update_def split: prod.splits)

section \<open>The gear state commutes with every stage\<close>

lemma throttleStage_gear:
  "throttleStage controls deltaTime (s\<lparr>isGearDown := g\<rparr>) = (throttleStage controls deltaTime s)\<lparr>isGearDown := g\<rparr>"
  by (simp add: throttleStage_def Let_def)

lemma speedStage_gear:
  "speedStage deltaTime (s\<lparr>isGearDown := g\<rparr>) = (speedStage deltaTime s)\<lparr>isGearDown := g\<rparr>"
  by (simp add: speedStage_def Let_def)

lemma runwayStage_gear:
  "runwayStage (s\<lparr>isGearDown := g\<rparr>) = (runwayStage s)\<lparr>isGearDown := g\<rparr>"
  by (simp add: runwayStage_def Let_def)

lemma aeroStage_gear:
  "aeroStage (s\<lparr>isGearDown := g\<rparr>) = (aeroStage s)\<lparr>isGearDown := g\<rparr>"
  by (simp add: aeroStage_def Let_def)

lemma verticalStage_gear:
  "verticalStage deltaTime (s\<lparr>isGearDown := g\<rparr>) = (verticalStage deltaTime s)\<lparr>isGearDown := g\<rparr>"
  by (simp add: verticalStage_def Let_def)

lemma groundStage_gear:
  "groundStage deltaTime (s\<lparr>isGearDown := g\<rparr>) = (groundStage deltaTime s)\<lparr>isGearDown := g\<rparr>"
  by (simp add: groundStage_def Let_def max_def)

lemma smoothingStage_gear:
  "smoothingStage controls deltaTime (s\<lparr>isGearDown := g\<rparr>) = (smoothingStage controls deltaTime s)\<lparr>isGearDown := g\<rparr>"
  by (simp add: smoothingStage_def Let_def)

lemma pitchTrimStage_gear:
  "pitchTrimStage deltaTime (s\<lparr>isGearDown := g\<rparr>) = (pitchTrimStage deltaTime s)\<lparr>isGearDown := g\<rparr>"
  by (simp add: pitchTrimStage_def Let_def)

lemma rollTrimStage_gear:
  "rollTrimStage deltaTime (s\<lparr>isGearDown := g\<rparr>) = (rollTrimStage deltaTime s)\<lparr>isGearDown := g\<rparr>"
  by (simp add: rollTrimStage_def Let_def)

lemma controlForceStage_gear:
  "controlForceStage eff deltaTime (s\<lparr>isGearDown := g\<rparr>) = (controlForceStage eff deltaTime s)\<lparr>isGearDown := g\<rparr>"
  by (simp add: controlForceStage_def Let_def)

lemma stabilityStage_gear:
  "stabilityStage eff deltaTime (s\<lparr>isGearDown := g\<rparr>) = (stabilityStage eff deltaTime s)\<lparr>isGearDown := g\<rparr>"
  by (simp add: stabilityStage_def Let_def)

lemma dampingStage_gear:
  "dampingStage deltaTime (s\<lparr>isGearDown := g\<rparr>) = (dampingStage deltaTime s)\<lparr>isGearDown := g\<rparr>"
  by (simp add: dampingStage_def Let_def)

lemma rotationStage_gear:
  "rotationStage deltaTime (s\<lparr>isGearDown := g\<rparr>) = (rotationStage deltaTime s)\<lparr>isGearDown := g\<rparr>"
  by (simp add: rotationStage_def Let_def)

lemma moveStage_gear:
  "moveStage (s\<lparr>isGearDown := g\<rparr>) = (moveStage s)\<lparr>isGearDown := g\<rparr>"
  by (simp add: moveStage_def Let_def forwardVector_def)

lemma boundsStage_gear:
  "boundsStage (s\<lparr>isGearDown := g\<rparr>) = (boundsStage s)\<lparr>isGearDown := g\<rparr>"
  by (simp add: boundsStage_def Let_def)

lemma speedEffectiveness_gear:
  "speedEffectiveness (s\<lparr>isGearDown := g\<rparr>) = speedEffectiveness s"
  by (simp add: speedEffectiveness_def)

lemma afterAttitude_gear:
  "afterAttitude controls deltaTime (s\<lparr>isGearDown := g\<rparr>)
     = (afterAttitude controls deltaTime s)\<lparr>isGearDown := g\<rparr>"
  by (simp add: afterAttitude_def afterTrim_def afterGround_def afterVertical_def
      afterPropulsion_def Let_def throttleStage_gear speedStage_gear runwayStage_gear
      aeroStage_gear verticalStage_gear groundStage_gear smoothingStage_gear
      pitchTrimStage_gear rollTrimStage_gear controlForceStage_gear stabilityStage_gear
      dampingStage_gear rotationStage_gear speedEffectiveness_gear)

lemma isGearDown_afterAttitude:
  "isGearDown (afterAttitude controls deltaTime s) = isGearDown s"
  by (simp add: afterAttitude_def afterTrim_def afterGround_def afterVertical_def
      afterPropulsion_def Let_def)

lemma isGearDown_update:
  "isGearDown (fst (update controls deltaTime s))
     = (if landingGear controls then \<not> isGearDown s else isGearDown s)"
  by (simp add: update_fst gearStage_isGearDown isGearDown_afterAttitude)

section \<open>Fields of the result in terms of the stages\<close>

lemma update_frame [simp]:
  "throttle (fst (update controls deltaTime s)) = throttle (afterAttitude controls deltaTime s)"
  "speed (fst (update controls deltaTime s)) = speed (afterAttitude controls deltaTime s)"
  "rotation (fst (update controls deltaTime s)) = rotation (afterAttitude controls deltaTime s)"
  "lift (fst (update controls deltaTime s)) = lift (afterAttitude controls deltaTime s)"
  "drag (fst (update controls deltaTime s)) = drag (afterAttitude controls deltaTime s)"
  "isOnRunway (fst (update controls deltaTime s)) = isOnRunway (afterAttitude controls deltaTime s)"
  "isStalling (fst (update controls deltaTime s)) = isStalling (afterAttitude controls deltaTime s)"
  "stallSpeed (fst (update controls deltaTime s)) = stallSpeed (afterAttitude controls deltaTime s)"
  "pitchInput (fst (update controls deltaTime s)) = pitchInput (afterAttitude controls deltaTime s)"
  "rollInput (fst (update controls deltaTime s)) = rollInput (afterAttitude controls deltaTime s)"
  "yawInput (fst (update controls deltaTime s)) = yawInput (afterAttitude controls deltaTime s)"
  "pitchTrim (fst (update controls deltaTime s)) = pitchTrim (afterAttitude controls deltaTime s)"
  "rollTrim (fst (update controls deltaTime s)) = rollTrim (afterAttitude controls deltaTime s)"
  "angularVelocity (fst (update controls deltaTime s))
     = angularVelocity (afterAttitude controls deltaTime s)"
  by (simp_all add: update_fst)

lemma afterAttitude_frame [simp]:
  "throttle (afterAttitude controls deltaTime s) = throttle (afterTrim controls deltaTime s)"
  "speed (afterAttitude controls deltaTime s) = speed (afterTrim controls deltaTime s)"
  "position (afterAttitude controls deltaTime s) = position (afterTrim controls deltaTime s)"
  "lift (afterAttitude controls deltaTime s) = lift (afterTrim controls deltaTime s)"
  "drag (afterAttitude controls deltaTime s) = drag (afterTrim controls deltaTime s)"
  "isOnRunway (afterAttitude controls deltaTime s) = isOnRunway (afterTrim controls deltaTime s)"
  "isStalling (afterAttitude controls deltaTime s) = isStalling (afterTrim controls deltaTime s)"
  "stallSpeed (afterAttitude controls deltaTime s) = stallSpeed (afterTrim controls deltaTime s)"
  "pitchInput (afterAttitude controls deltaTime s) = pitchInput (afterTrim controls deltaTime s)"
  "rollInput (afterAttitude controls deltaTime s) = rollInput (afterTrim controls deltaTime s)"
  "yawInput (afterAttitude controls deltaTime s) = yawInput (afterTrim controls deltaTime s)"
  "pitchTrim (afterAttitude controls deltaTime s) = pitchTrim (afterTrim controls deltaTime s)"
  "rollTrim (afterAttitude controls deltaTime s) = rollTrim (afterTrim controls deltaTime s)"
  by (simp_all add: afterAttitude_def Let_def)

lemma afterTrim_frame [simp]:
  "throttle (afterTrim controls deltaTime s) = throttle (afterGround controls deltaTime s)"
  "speed (afterTrim controls deltaTime s) = speed (afterGround controls deltaTime s)"
  "position (afterTrim controls deltaTime s) = position (afterGround controls deltaTime s)"
  "rotation (afterTrim controls deltaTime s) = rotation (afterGround controls deltaTime s)"
  "lift (afterTrim controls deltaTime s) = lift (afterGround controls deltaTime s)"
  "drag (afterTrim controls deltaTime s) = drag (afterGround controls deltaTime s)"
  "isOnRunway (afterTrim controls deltaTime s) = isOnRunway (afterGround controls deltaTime s)"
  "isStalling (afterTrim controls deltaTime s) = isStalling (afterGround controls deltaTime s)"
  "stallSpeed (afterTrim controls deltaTime s) = stallSpeed (afterGround controls deltaTime s)"
  "angularVelocity (afterTrim controls deltaTime s)
     = angularVelocity (afterGround controls deltaTime s)"
  by (simp_all add: afterTrim_def)

lemma afterGround_frame [simp]:
  "throttle (afterGround controls deltaTime s) = throttle (afterVertical controls deltaTime s)"
  "rotation (afterGround controls deltaTime s) = rotation (afterVertical controls deltaTime s)"
  "lift (afterGround controls deltaTime s) = lift (afterVertical controls deltaTime s)"
  "drag (afterGround controls deltaTime s) = drag (afterVertical controls deltaTime s)"
  "isOnRunway (afterGround controls deltaTime s) = isOnRunway (afterVertical controls deltaTime s)"
  "isStalling (afterGround controls deltaTime s) = isStalling (afterVertical controls deltaTime s)"
  "stallSpeed (afterGround controls deltaTime s) = stallSpeed (afterVertical controls deltaTime s)"
  "pitchInput (afterGround controls deltaTime s) = pitchInput (afterVertical controls deltaTime s)"
  "rollInput (afterGround controls deltaTime s) = rollInput (afterVertical controls deltaTime s)"
  "yawInput (afterGround controls deltaTime s) = yawInput (afterVertical controls deltaTime s)"
  "pitchTrim (afterGround controls deltaTime s) = pitchTrim (afterVertical controls deltaTime s)"
  "rollTrim (afterGround controls deltaTime s) = rollTrim (afterVertical controls deltaTime s)"
  by (simp_all add: afterGround_def)

lemma afterVertical_frame [simp]:
  "throttle (afterVertical controls deltaTime s) = throttle (afterPropulsion controls deltaTime s)"
  "speed (afterVertical controls deltaTime s) = speed (afterPropulsion controls deltaTime s)"
  "rotation (afterVertical controls deltaTime s) = rotation (afterPropulsion controls deltaTime s)"
  "stallSpeed (afterVertical controls deltaTime s) = stallSpeed (afterPropulsion controls deltaTime s)"
  "pitchInput (afterVertical controls deltaTime s) = pitchInput (afterPropulsion controls deltaTime s)"
  "rollInput (afterVertical controls deltaTime s) = rollInput (afterPropulsion controls deltaTime s)"
  "yawInput (afterVertical controls deltaTime s) = yawInput (afterPropulsion controls deltaTime s)"
  "pitchTrim (afterVertical controls deltaTime s) = pitchTrim (afterPropulsion controls deltaTime s)"
  "rollTrim (afterVertical controls deltaTime s) = rollTrim (afterPropulsion controls deltaTime s)"
  "angularVelocity (afterVertical controls deltaTime s)
     = angularVelocity (afterPropulsion controls deltaTime s)"
  by (simp_all add: afterVertical_def)

lemma afterPropulsion_frame [simp]:
  "position (afterPropulsion controls deltaTime s) = position s"
  "rotation (afterPropulsion controls deltaTime s) = rotation s"
  "lift (afterPropulsion controls deltaTime s) = lift s"
  "drag (afterPropulsion controls deltaTime s) = drag s"
  "isOnRunway (afterPropulsion controls deltaTime s) = isOnRunway s"
  "isStalling (afterPropulsion controls deltaTime s) = isStalling s"
  "stallSpeed (afterPropulsion controls deltaTime s) = stallSpeed s"
  "pitchInput (afterPropulsion controls deltaTime s) = pitchInput s"
  "rollInput (afterPropulsion controls deltaTime s) = rollInput s"
  "yawInput (afterPropulsion controls deltaTime s) = yawInput s"
  "pitchTrim (afterPropulsion controls deltaTime s) = pitchTrim s"
  "rollTrim (afterPropulsion controls deltaTime s) = rollTrim s"
  "angularVelocity (afterPropulsion controls deltaTime s) = angularVelocity s"
  "throttle (afterPropulsion controls deltaTime s) = throttle (throttleStage controls deltaTime s)"
  by (simp_all add: afterPropulsion_def)

text \<open>The flags and forces computed between lines 73 and 117.\<close>

lemma afterVertical_isOnRunway:
  "isOnRunway (afterVertical controls deltaTime s)
     = ((\<bar>vec_z (position s)\<bar> < 100 \<and> \<bar>vec_x (position s)\<bar> < 25)
        \<and> vec_y (position s) \<le> groundHeight + 0.1)"
  by (simp add: afterVertical_def runwayStage_def Let_def)

lemma afterVertical_isStalling:
  "isStalling (afterVertical controls deltaTime s)
     = (speed (afterPropulsion controls deltaTime s) < stallSpeed s
        \<and> \<not> isOnRunway (afterVertical controls deltaTime s) \<and> vec_y (position s) > 2)"
  by (auto simp add: afterVertical_def runwayStage_def Let_def)

lemma afterVertical_drag:
  "drag (afterVertical controls deltaTime s)
     = speed (afterPropulsion controls deltaTime s) * speed (afterPropulsion controls deltaTime s)
         * 0.08"
  by (simp add: afterVertical_def aeroStage_def Let_def)

lemma afterVertical_lift:
  "lift (afterVertical controls deltaTime s)
     = speed (afterPropulsion controls deltaTime s) * speed (afterPropulsion controls deltaTime s)
         * 0.3 * max 0.1 (angleOfAttackEffect (eul_x (rotation s)))
         * (if isStalling (afterVertical controls deltaTime s) then 0.2 else 1)"
  by (simp add: afterVertical_def aeroStage_def Let_def)

lemma afterPropulsion_speed:
  "speed (afterPropulsion controls deltaTime s)
     = max ((if throttle (throttleStage controls deltaTime s) > 0
             then min (speed s + throttle (throttleStage controls deltaTime s) * maxSpeed * 1.0
                         * deltaTime)
                      (maxSpeed * throttle (throttleStage controls deltaTime s))
             else max (speed s - 0.12 * deltaTime) 0)
            - drag s * deltaTime) 0"
  by (simp add: afterPropulsion_def speedStage_def Let_def)

lemma throttleStage_idle:
  "\<not> throttle_ctl controls \<Longrightarrow> throttle s = 0 \<Longrightarrow> 0 \<le> deltaTime
     \<Longrightarrow> throttle (throttleStage controls deltaTime s) = 0"
  by (simp add: throttleStage_def Let_def)

lemma afterPropulsion_idle:
  "\<not> throttle_ctl controls \<Longrightarrow> throttle s = 0 \<Longrightarrow> 0 \<le> deltaTime
     \<Longrightarrow> speed (afterPropulsion controls deltaTime s)
         = max (max (speed s - 0.12 * deltaTime) 0 - drag s * deltaTime) 0"
  by (simp add: afterPropulsion_speed throttleStage_idle)

section \<open>Position\<close>

text \<open>Position: the altitude through the stages, and the translation along x and z.\<close>

lemma verticalStage_xz [simp]:
  "vec_x (position (verticalStage deltaTime s)) = vec_x (position s)"
  "vec_z (position (verticalStage deltaTime s)) = vec_z (position s)"
  by (simp_all add: verticalStage_def Let_def)

lemma groundStage_xz [simp]:
  "vec_x (position (groundStage deltaTime s)) = vec_x (position s)"
  "vec_z (position (groundStage deltaTime s)) = vec_z (position s)"
  by (simp_all add: groundStage_def Let_def)

lemma groundStage_y:
  "vec_y (position (groundStage deltaTime s))
     = (if vec_y (position s) < groundHeight then max groundHeight 0.5 else vec_y (position s))"
  by (simp add: groundStage_def Let_def)

lemma afterGround_xz [simp]:
  "vec_x (position (afterGround controls deltaTime s)) = vec_x (position s)"
  "vec_z (position (afterGround controls deltaTime s)) = vec_z (position s)"
  by (simp_all add: afterGround_def afterVertical_def)

lemma afterGround_y:
  "vec_y (position (afterGround controls deltaTime s))
     = (if vec_y (position (afterVertical controls deltaTime s)) < groundHeight
        then max groundHeight 0.5 else vec_y (position (afterVertical controls deltaTime s)))"
  by (simp add: afterGround_def groundStage_y)

lemma forwardVector_xz:
  "vec_x (forwardVector s) = sin (eul_y (rotation s))"
  "vec_z (forwardVector s) = cos (eul_x (rotation s)) * cos (eul_y (rotation s))"
  by (simp_all add: forwardVector_def applyEuler_def Let_def)

lemma forwardVector_cong:
  "rotation s = rotation t \<Longrightarrow> forwardVector s = forwardVector t"
  by (simp add: forwardVector_def)

lemma update_y:
  "vec_y (position (fst (update controls deltaTime s)))
     = (if vec_y (position (afterGround controls deltaTime s)) > 200 then 200
        else vec_y (position (afterGround controls deltaTime s)))"
  by (simp add: update_fst boundsStage_def moveStage_def)

lemma update_x:
  "vec_x (position (fst (update controls deltaTime s)))
     = wrapX (vec_x (position s)
         + vec_x (forwardVector (fst (update controls deltaTime s)))
             * speed (fst (update controls deltaTime s)))"
proof -
  have "forwardVector (fst (gearStage controls (afterAttitude controls deltaTime s)))
          = forwardVector (fst (update controls deltaTime s))"
    by (rule forwardVector_cong) simp
  then show ?thesis
    by (simp add: update_fst boundsStage_def moveStage_def)
qed

lemma update_z:
  "vec_z (position (fst (update controls deltaTime s)))
     = wrapZ (vec_z (position s)
         + vec_z (forwardVector (fst (update controls deltaTime s)))
             * speed (fst (update controls deltaTime s)))"
proof -
  have "forwardVector (fst (gearStage controls (afterAttitude controls deltaTime s)))
          = forwardVector (fst (update controls deltaTime s))"
    by (rule forwardVector_cong) simp
  then show ?thesis
    by (simp add: update_fst boundsStage_def moveStage_def)
qed

lemma wrapX_range: "- 800 \<le> wrapX p \<and> wrapX p \<le> 800"
  by (simp add: wrapX_def Let_def)

lemma wrapZ_range: "- 800 \<le> wrapZ p \<and> wrapZ p \<le> 800"
  by (simp add: wrapZ_def Let_def)

lemma update_y_ground: "groundHeight \<le> vec_y (position (fst (update controls deltaTime s)))"
  by (simp add: update_y afterGround_y groundHeight_def)

text \<open>Unfolding every stage, to evaluate a call on a given state.\<close>

lemmas stage_defs = afterAttitude_def afterTrim_def afterGround_def afterVertical_def
  afterPropulsion_def throttleStage_def speedStage_def runwayStage_def aeroStage_def
  verticalStage_def groundStage_def smoothingStage_def pitchTrimStage_def rollTrimStage_def
  controlForceStage_def stabilityStage_def dampingStage_def rotationStage_def
  speedEffectiveness_def angleOfAttackEffect_def targetPitchInput_def targetRollInput_def
  targetYawInput_def maxSpeed_def groundHeight_def minControlSpeed_def Let_def

lemma wrapState_speed: "speed (afterGround idleControls 1 wrapState) = 2.16"
  by (simp add: stage_defs wrapState_def constructor_def idleControls_def)

lemma wrapState_rotation:
  "rotation (afterAttitude idleControls 1 wrapState) = \<lparr> eul_x = 0, eul_y = 0, eul_z = 0 \<rparr>"
  by (simp add: stage_defs wrapState_def constructor_def idleControls_def)

lemma wrapState_fields:
  "vec_z (position wrapState) = 799" "speed wrapState = 3"
  "rotation wrapState = \<lparr> eul_x = 0, eul_y = 0, eul_z = 0 \<rparr>"
  by (simp_all add: wrapState_def constructor_def)

lemma wrapState_moved_z:
  "vec_z (position wrapState)
     + vec_z (forwardVector (fst (update idleControls 1 wrapState)))
         * speed (fst (update idleControls 1 wrapState)) = 801.16"
  by (simp add: forwardVector_xz wrapState_rotation wrapState_speed wrapState_fields)

lemma wrapState_z: "vec_z (position (fst (update idleControls 1 wrapState))) = - 800"
  unfolding update_z wrapState_moved_z by (simp add: wrapZ_def)

section \<open>Throttle\<close>

lemma update_throttle:
  "throttle (fst (update controls deltaTime s)) = throttle (throttleStage controls deltaTime s)"
  by simp

lemma throttleStage_held:
  "throttle_ctl controls \<Longrightarrow> \<not> brake controls
     \<Longrightarrow> throttle (throttleStage controls deltaTime s) = min (throttle s + 0.5 * deltaTime) 1"
  by (simp add: throttleStage_def Let_def)

lemma throttleStage_range:
  "0 \<le> throttle s \<Longrightarrow> throttle s \<le> 1 \<Longrightarrow> 0 \<le> deltaTime
     \<Longrightarrow> 0 \<le> throttle (throttleStage controls deltaTime s)
       \<and> throttle (throttleStage controls deltaTime s) \<le> 1"
  by (simp add: throttleStage_def Let_def min_def max_def)

lemma min_ramp:
  fixes t a k :: real
  shows "0 \<le> a \<Longrightarrow> 0 \<le> k \<Longrightarrow> min (min (t + a) 1 + k) 1 = min (t + (a + k)) 1"
  by (simp add: min_def)

lemma run_throttle_held:
  "\<forall>c\<in>set cs. throttle_ctl c \<and> \<not> brake c \<Longrightarrow> 0 \<le> deltaTime \<Longrightarrow> throttle s \<le> 1
     \<Longrightarrow> throttle (run (map (\<lambda>c. (c, deltaTime)) cs) s)
         = min (throttle s + 0.5 * deltaTime * real (length cs)) 1"
proof (induction cs arbitrary: s)
  case Nil
  then show ?case by simp
next
  case (Cons c cs)
  let ?s1 = "fst (update c deltaTime s)"
  from Cons.prems have t1: "throttle ?s1 = min (throttle s + 0.5 * deltaTime) 1"
    by (simp add: throttleStage_held)
  then have le: "throttle ?s1 \<le> 1"
    by simp
  from Cons.prems have all: "\<forall>c\<in>set cs. throttle_ctl c \<and> \<not> brake c"
    by simp
  have a: "0 \<le> 0.5 * deltaTime"
    using Cons.prems(2) by simp
  have k: "0 \<le> 0.5 * deltaTime * real (length cs)"
    using Cons.prems(2) by simp
  have s: "0.5 * deltaTime * real (length (c # cs))
      = 0.5 * deltaTime + 0.5 * deltaTime * real (length cs)"
    by (simp add: algebra_simps)
  have "throttle (run (map (\<lambda>c. (c, deltaTime)) (c # cs)) s)
      = min (throttle ?s1 + 0.5 * deltaTime * real (length cs)) 1"
    using Cons.IH [OF all Cons.prems(2) le] by simp
  also have "\<dots> = min (throttle s + (0.5 * deltaTime + 0.5 * deltaTime * real (length cs))) 1"
    unfolding t1 by (rule min_ramp [OF a k])
  finally show ?case
    unfolding s .
qed

section \<open>Bounds established by one call, and kept by every sequence of calls\<close>

text \<open>
  In exact arithmetic the bounds of \<open>inBounds\<close> and \<open>grounded\<close> are an invariant of
  \<open>update\<close> for time slices \<open>\<ge> 0\<close>, and the constructor's state satisfies them. This is
  a fact about the model over \<open>real\<close>. It is not a fact about the source in doubles, where
  a call can overflow and leave NaN in the pitch, the roll and the position (claim C1): from
  the constructor's state, one call with the throttle and a pitch key held and a time slice
  of \<open>1e308\<close> does.
\<close>

lemma clamp_range:
  fixes lo hi v :: real
  shows "lo \<le> hi \<Longrightarrow> lo \<le> max lo (min hi v) \<and> max lo (min hi v) \<le> hi"
  by (simp add: min_def max_def)

lemma rotationStage_rotation:
  "rotation (rotationStage deltaTime s)
     = \<lparr> eul_x = max (- pi / 3) (min (pi / 3)
                 (eul_x (rotation s) + vec_x (angularVelocity s) * deltaTime)),
         eul_y = eul_y (rotation s) + vec_y (angularVelocity s) * deltaTime,
         eul_z = max (- pi / 2) (min (pi / 2)
                 (eul_z (rotation s) + vec_z (angularVelocity s) * deltaTime)) \<rparr>"
  by (simp add: rotationStage_def Let_def)

lemma rotationStage_range:
  "- pi / 3 \<le> eul_x (rotation (rotationStage deltaTime s))
   \<and> eul_x (rotation (rotationStage deltaTime s)) \<le> pi / 3
   \<and> - pi / 2 \<le> eul_z (rotation (rotationStage deltaTime s))
   \<and> eul_z (rotation (rotationStage deltaTime s)) \<le> pi / 2"
proof -
  have a: "- pi / 3 \<le> pi / 3" and b: "- pi / 2 \<le> pi / 2"
    using pi_ge_zero by simp_all
  show ?thesis
    unfolding rotationStage_rotation using clamp_range [OF a] clamp_range [OF b] by simp
qed

lemma afterPropulsion_speed_nonneg: "0 \<le> speed (afterPropulsion controls deltaTime s)"
  by (simp add: afterPropulsion_speed)

lemma groundStage_speed_nonneg: "0 \<le> speed s \<Longrightarrow> 0 \<le> speed (groundStage deltaTime s)"
  by (simp add: groundStage_def Let_def max_def)

lemma groundStage_speed_le:
  "0 \<le> speed s \<Longrightarrow> 0 \<le> deltaTime \<Longrightarrow> speed (groundStage deltaTime s) \<le> speed s"
  by (simp add: groundStage_def Let_def max_def)

lemma update_speed_nonneg: "0 \<le> speed (fst (update controls deltaTime s))"
  by (simp add: afterGround_def groundStage_speed_nonneg afterPropulsion_speed_nonneg)

lemma afterPropulsion_speed_le:
  assumes "0 \<le> deltaTime" and "0 \<le> drag s"
    and "0 < throttle (throttleStage controls deltaTime s)"
  shows "speed (afterPropulsion controls deltaTime s)
           \<le> 3.5 * throttle (throttleStage controls deltaTime s)"
proof -
  from assms have d: "0 \<le> drag s * deltaTime"
    by simp
  with assms(3) show ?thesis
    unfolding afterPropulsion_speed by (simp add: maxSpeed_def min_def max_def)
qed

lemma update_speed_le:
  assumes "0 \<le> deltaTime" and "0 \<le> drag s" and "0 \<le> throttle s" and "throttle s \<le> 1"
  shows "throttle (fst (update controls deltaTime s)) = 0
     \<or> speed (fst (update controls deltaTime s))
         \<le> 3.5 * throttle (fst (update controls deltaTime s))"
proof (cases "throttle (throttleStage controls deltaTime s) = 0")
  case True
  then show ?thesis by simp
next
  case False
  with throttleStage_range [OF assms(3,4,1), of controls]
  have p: "0 < throttle (throttleStage controls deltaTime s)"
    by simp
  have "speed (afterGround controls deltaTime s) \<le> speed (afterPropulsion controls deltaTime s)"
    using groundStage_speed_le [of "afterVertical controls deltaTime s" deltaTime] assms(1)
    by (simp add: afterGround_def afterPropulsion_speed_nonneg)
  with afterPropulsion_speed_le [OF assms(1,2) p] show ?thesis
    by simp
qed

lemma update_drag_nonneg: "0 \<le> drag (fst (update controls deltaTime s))"
  by (simp add: afterVertical_drag)

lemma update_rotation_range:
  "- pi / 3 \<le> eul_x (rotation (fst (update controls deltaTime s)))
   \<and> eul_x (rotation (fst (update controls deltaTime s))) \<le> pi / 3
   \<and> - pi / 2 \<le> eul_z (rotation (fst (update controls deltaTime s)))
   \<and> eul_z (rotation (fst (update controls deltaTime s))) \<le> pi / 2"
  unfolding update_frame afterAttitude_def Let_def by (rule rotationStage_range)

lemma pitchTrimStage_range:
  "- 0.3 \<le> pitchTrim s \<Longrightarrow> pitchTrim s \<le> 0.3
     \<Longrightarrow> - 0.3 \<le> pitchTrim (pitchTrimStage deltaTime s)
       \<and> pitchTrim (pitchTrimStage deltaTime s) \<le> 0.3"
  using clamp_range [of "- 0.3" "0.3"] by (simp add: pitchTrimStage_def Let_def)

lemma rollTrimStage_range:
  "- 0.2 \<le> rollTrim s \<Longrightarrow> rollTrim s \<le> 0.2
     \<Longrightarrow> - 0.2 \<le> rollTrim (rollTrimStage deltaTime s)
       \<and> rollTrim (rollTrimStage deltaTime s) \<le> 0.2"
  using clamp_range [of "- 0.2" "0.2"] by (simp add: rollTrimStage_def Let_def)

lemma update_pitchTrim_range:
  "- 0.3 \<le> pitchTrim s \<Longrightarrow> pitchTrim s \<le> 0.3
     \<Longrightarrow> - 0.3 \<le> pitchTrim (fst (update controls deltaTime s))
       \<and> pitchTrim (fst (update controls deltaTime s)) \<le> 0.3"
  using pitchTrimStage_range
    [of "smoothingStage controls deltaTime (afterGround controls deltaTime s)" deltaTime]
  by (simp add: afterTrim_def afterGround_def afterVertical_def)

lemma update_rollTrim_range:
  "- 0.2 \<le> rollTrim s \<Longrightarrow> rollTrim s \<le> 0.2
     \<Longrightarrow> - 0.2 \<le> rollTrim (fst (update controls deltaTime s))
       \<and> rollTrim (fst (update controls deltaTime s)) \<le> 0.2"
  using rollTrimStage_range
    [of "pitchTrimStage deltaTime
           (smoothingStage controls deltaTime (afterGround controls deltaTime s))" deltaTime]
  by (simp add: afterTrim_def afterGround_def afterVertical_def)

lemma update_y_le: "vec_y (position (fst (update controls deltaTime s))) \<le> 200"
  by (simp add: update_y)

lemma update_invariant:
  assumes "0 \<le> deltaTime" and "inBounds s \<and> grounded s"
  shows "inBounds (fst (update controls deltaTime s)) \<and> grounded (fst (update controls deltaTime s))"
proof -
  let ?t = "fst (update controls deltaTime s)"
  from assms have th: "0 \<le> throttle ?t \<and> throttle ?t \<le> 1"
    using throttleStage_range [of s deltaTime controls] by simp
  have sp: "0 \<le> speed ?t"
    by (rule update_speed_nonneg)
  have ro: "- pi / 3 \<le> eul_x (rotation ?t) \<and> eul_x (rotation ?t) \<le> pi / 3
      \<and> - pi / 2 \<le> eul_z (rotation ?t) \<and> eul_z (rotation ?t) \<le> pi / 2"
    by (rule update_rotation_range)
  from assms have pt: "- 0.3 \<le> pitchTrim ?t \<and> pitchTrim ?t \<le> 0.3"
    by (intro update_pitchTrim_range) simp_all
  from assms have rt: "- 0.2 \<le> rollTrim ?t \<and> rollTrim ?t \<le> 0.2"
    by (intro update_rollTrim_range) simp_all
  have px: "- 800 \<le> vec_x (position ?t) \<and> vec_x (position ?t) \<le> 800"
    unfolding update_x by (rule wrapX_range)
  have pz: "- 800 \<le> vec_z (position ?t) \<and> vec_z (position ?t) \<le> 800"
    unfolding update_z by (rule wrapZ_range)
  have py: "vec_y (position ?t) \<le> 200"
    by (rule update_y_le)
  have gy: "0.8 \<le> vec_y (position ?t)"
    using update_y_ground [of controls deltaTime s] by (simp add: groundHeight_def)
  have dr: "0 \<le> drag ?t"
    by (rule update_drag_nonneg)
  from assms have sl: "throttle ?t = 0 \<or> speed ?t \<le> 3.5 * throttle ?t"
    by (intro update_speed_le) simp_all
  from th sp ro pt rt px pz py gy dr sl show ?thesis
    by blast
qed

lemma constructor_invariant: "inBounds constructor \<and> grounded constructor"
  by (simp add: constructor_def)

lemma run_invariant:
  "inBounds s \<and> grounded s \<Longrightarrow> \<forall>call\<in>set calls. 0 \<le> snd call
     \<Longrightarrow> inBounds (run calls s) \<and> grounded (run calls s)"
proof (induction calls arbitrary: s)
  case Nil
  then show ?case by simp
next
  case (Cons call calls)
  obtain controls deltaTime where c: "call = (controls, deltaTime)"
    by (cases call)
  with Cons.prems have d: "0 \<le> deltaTime"
    by simp
  from Cons.prems have r: "\<forall>call\<in>set calls. 0 \<le> snd call"
    by simp
  have "inBounds (run calls (fst (update controls deltaTime s)))
      \<and> grounded (run calls (fst (update controls deltaTime s)))"
    by (rule Cons.IH [OF update_invariant [OF d Cons.prems(1)] r])
  with c show ?case
    by simp
qed

lemma reachable_invariant:
  assumes "\<forall>call\<in>set calls. 0 \<le> snd call"
  shows "inBounds (run calls constructor) \<and> grounded (run calls constructor)"
  by (rule run_invariant [OF constructor_invariant assms])

section \<open>A call with a time slice of zero\<close>

lemma taxi_speed: "speed (afterGround idleControls 0 taxiState) = 1"
  by (simp add: stage_defs taxiState_def constructor_def idleControls_def)

lemma taxi_rotation:
  "rotation (afterAttitude idleControls 0 taxiState) = \<lparr> eul_x = 0, eul_y = 0, eul_z = 0 \<rparr>"
  by (simp add: stage_defs taxiState_def constructor_def idleControls_def)

lemma taxi_drag: "drag (afterVertical idleControls 0 taxiState) = 0.08"
  by (simp add: stage_defs taxiState_def constructor_def idleControls_def)

lemma taxi_lift: "lift (afterVertical idleControls 0 taxiState) = 0.3"
  by (simp add: stage_defs taxiState_def constructor_def idleControls_def)

text \<open>One call from the constructor's state with the throttle held, then a call with a time
  slice of zero.\<close>

lemma takeoff_call:
  "fst (update (idleControls\<lparr>throttle_ctl := True\<rparr>) 1 constructor)
     = \<lparr> throttle = 0.5, speed = 1.75,
         position = \<lparr> vec_x = 0, vec_y = 1.71875, vec_z = - 48.25 \<rparr>,
         rotation = \<lparr> eul_x = 0, eul_y = 0, eul_z = 0 \<rparr>,
         lift = 0.91875, drag = 0.245,
         isGearDown = True, isOnRunway = True, isStalling = False,
         stallSpeed = 0.3,
         pitchInput = 0, rollInput = 0, yawInput = 0,
         pitchTrim = 0, rollTrim = 0,
         angularVelocity = \<lparr> vec_x = 0, vec_y = 0, vec_z = 0 \<rparr> \<rparr>"
  by (simp add: update_def gearStage_def moveStage_def boundsStage_def wrapX_def wrapZ_def
      forwardVector_def applyEuler_def stage_defs constructor_def idleControls_def)

lemma takeoff_then_zero_z:
  "vec_z (position (fst (update idleControls 0
      (fst (update (idleControls\<lparr>throttle_ctl := True\<rparr>) 1 constructor))))) = - 46.5"
  unfolding takeoff_call
  by (simp add: update_def gearStage_def moveStage_def boundsStage_def wrapX_def wrapZ_def
      forwardVector_def applyEuler_def stage_defs idleControls_def)

text \<open>A call with a time slice of zero.\<close>

lemma throttleStage_zero:
  "0 \<le> throttle s \<Longrightarrow> throttle s \<le> 1 \<Longrightarrow> throttle (throttleStage controls 0 s) = throttle s"
  by (simp add: throttleStage_def Let_def)

lemma afterPropulsion_zero:
  assumes "0 \<le> throttle s" and "throttle s \<le> 1" and "0 \<le> speed s"
    and "throttle s = 0 \<or> speed s \<le> 3.5 * throttle s"
  shows "speed (afterPropulsion controls 0 s) = speed s"
  using assms unfolding afterPropulsion_speed
  by (auto simp add: throttleStage_zero maxSpeed_def)

lemma verticalStage_zero: "vec_y (position (verticalStage 0 s)) = vec_y (position s)"
  by (simp add: verticalStage_def Let_def)

lemma afterVertical_y_zero: "vec_y (position (afterVertical controls 0 s)) = vec_y (position s)"
  by (simp add: afterVertical_def verticalStage_zero)

lemma groundStage_airborne: "groundHeight \<le> vec_y (position s) \<Longrightarrow> groundStage deltaTime s = s"
  by (simp add: groundStage_def Let_def)

lemma afterGround_zero:
  "0.8 \<le> vec_y (position s) \<Longrightarrow> afterGround controls 0 s = afterVertical controls 0 s"
  unfolding afterGround_def
  by (rule groundStage_airborne) (simp add: afterVertical_y_zero groundHeight_def)

lemma smoothingStage_zero [simp]:
  "pitchInput (smoothingStage controls 0 s) = pitchInput s"
  "rollInput (smoothingStage controls 0 s) = rollInput s"
  "yawInput (smoothingStage controls 0 s) = yawInput s"
  by (simp_all add: smoothingStage_def Let_def)

lemma pitchTrimStage_zero:
  "- 0.3 \<le> pitchTrim s \<Longrightarrow> pitchTrim s \<le> 0.3 \<Longrightarrow> pitchTrim (pitchTrimStage 0 s) = pitchTrim s"
  by (simp add: pitchTrimStage_def Let_def)

lemma rollTrimStage_zero:
  "- 0.2 \<le> rollTrim s \<Longrightarrow> rollTrim s \<le> 0.2 \<Longrightarrow> rollTrim (rollTrimStage 0 s) = rollTrim s"
  by (simp add: rollTrimStage_def Let_def)

lemma angular_zero [simp]:
  "angularVelocity (controlForceStage eff 0 s) = angularVelocity s"
  "angularVelocity (stabilityStage eff 0 s) = angularVelocity s"
  "angularVelocity (dampingStage 0 s) = angularVelocity s"
  by (simp_all add: controlForceStage_def stabilityStage_def dampingStage_def Let_def)

lemma rotationStage_zero:
  assumes "- pi / 3 \<le> eul_x (rotation s)" and "eul_x (rotation s) \<le> pi / 3"
    and "- pi / 2 \<le> eul_z (rotation s)" and "eul_z (rotation s) \<le> pi / 2"
  shows "rotation (rotationStage 0 s) = rotation s"
  using assms unfolding rotationStage_rotation by simp

lemma afterTrim_inputs_zero:
  assumes "0.8 \<le> vec_y (position s)"
  shows "pitchInput (afterTrim controls 0 s) = pitchInput s"
    and "rollInput (afterTrim controls 0 s) = rollInput s"
    and "yawInput (afterTrim controls 0 s) = yawInput s"
  by (simp_all add: afterTrim_def afterGround_zero [OF assms])

lemma afterTrim_trims_zero:
  assumes "0.8 \<le> vec_y (position s)"
    and "- 0.3 \<le> pitchTrim s" and "pitchTrim s \<le> 0.3"
    and "- 0.2 \<le> rollTrim s" and "rollTrim s \<le> 0.2"
  shows "pitchTrim (afterTrim controls 0 s) = pitchTrim s"
    and "rollTrim (afterTrim controls 0 s) = rollTrim s"
proof -
  let ?x = "smoothingStage controls 0 (afterGround controls 0 s)"
  have p: "pitchTrim ?x = pitchTrim s" and r: "rollTrim ?x = rollTrim s"
    by (simp_all add: afterGround_zero [OF assms(1)])
  from assms p have "pitchTrim (pitchTrimStage 0 ?x) = pitchTrim s"
    by (simp add: pitchTrimStage_zero)
  then show "pitchTrim (afterTrim controls 0 s) = pitchTrim s"
    by (simp add: afterTrim_def)
  from assms r have "rollTrim (rollTrimStage 0 (pitchTrimStage 0 ?x)) = rollTrim s"
    by (simp add: rollTrimStage_zero)
  then show "rollTrim (afterTrim controls 0 s) = rollTrim s"
    by (simp add: afterTrim_def)
qed

lemma afterAttitude_angular_zero:
  assumes "0.8 \<le> vec_y (position s)"
  shows "angularVelocity (afterAttitude controls 0 s) = angularVelocity s"
  by (simp add: afterAttitude_def Let_def afterGround_zero [OF assms])

lemma afterAttitude_rotation_zero:
  assumes "- pi / 3 \<le> eul_x (rotation s)" and "eul_x (rotation s) \<le> pi / 3"
    and "- pi / 2 \<le> eul_z (rotation s)" and "eul_z (rotation s) \<le> pi / 2"
  shows "rotation (afterAttitude controls 0 s) = rotation s"
proof -
  let ?eff = "speedEffectiveness (afterGround controls 0 s)"
  let ?y = "dampingStage 0 (stabilityStage ?eff 0 (controlForceStage ?eff 0
      (afterTrim controls 0 s)))"
  have r: "rotation ?y = rotation s"
    by (simp add: afterGround_def afterVertical_def)
  with assms have "rotation (rotationStage 0 ?y) = rotation s"
    by (simp add: rotationStage_zero)
  then show ?thesis
    by (simp add: afterAttitude_def Let_def)
qed

section \<open>Auto-trim\<close>

text \<open>The trim stage.\<close>

lemma pitchTrimStage_pitchTrim:
  "pitchTrim (pitchTrimStage deltaTime x)
     = (if \<bar>pitchInput x\<bar> < 0.1 \<and> speed x > 0.4
        then max (- 0.3) (min 0.3 (pitchTrim x + eul_x (rotation x) * (0.3 * deltaTime)))
        else pitchTrim x)"
  by (simp add: pitchTrimStage_def Let_def)

lemma rollTrimStage_rollTrim:
  "rollTrim (rollTrimStage deltaTime x)
     = (if \<bar>rollInput x\<bar> < 0.1 \<and> speed x > 0.4
        then max (- 0.2) (min 0.2 (rollTrim x + eul_z (rotation x) * (0.5 * deltaTime)))
        else rollTrim x)"
  by (simp add: rollTrimStage_def Let_def)

lemma update_pitchTrim:
  "pitchTrim (fst (update controls deltaTime s))
     = (if \<bar>pitchInput (fst (update controls deltaTime s))\<bar> < 0.1
           \<and> speed (fst (update controls deltaTime s)) > 0.4
        then max (- 0.3) (min 0.3 (pitchTrim s + eul_x (rotation s) * (0.3 * deltaTime)))
        else pitchTrim s)"
proof -
  let ?x = "smoothingStage controls deltaTime (afterGround controls deltaTime s)"
  have a: "pitchTrim (fst (update controls deltaTime s)) = pitchTrim (pitchTrimStage deltaTime ?x)"
    by (simp add: afterTrim_def)
  have b: "pitchInput (fst (update controls deltaTime s)) = pitchInput ?x"
    by (simp add: afterTrim_def)
  have c: "speed (fst (update controls deltaTime s)) = speed ?x"
    by simp
  have d: "pitchTrim ?x = pitchTrim s" and e: "rotation ?x = rotation s"
    by (simp_all add: afterGround_def afterVertical_def)
  show ?thesis
    unfolding a b c pitchTrimStage_pitchTrim d e ..
qed

lemma update_rollTrim:
  "rollTrim (fst (update controls deltaTime s))
     = (if \<bar>rollInput (fst (update controls deltaTime s))\<bar> < 0.1
           \<and> speed (fst (update controls deltaTime s)) > 0.4
        then max (- 0.2) (min 0.2 (rollTrim s + eul_z (rotation s) * (0.5 * deltaTime)))
        else rollTrim s)"
proof -
  let ?x = "pitchTrimStage deltaTime
      (smoothingStage controls deltaTime (afterGround controls deltaTime s))"
  have a: "rollTrim (fst (update controls deltaTime s)) = rollTrim (rollTrimStage deltaTime ?x)"
    by (simp add: afterTrim_def)
  have b: "rollInput (fst (update controls deltaTime s)) = rollInput ?x"
    by (simp add: afterTrim_def)
  have c: "speed (fst (update controls deltaTime s)) = speed ?x"
    by simp
  have d: "rollTrim ?x = rollTrim s" and e: "rotation ?x = rotation s"
    by (simp_all add: afterGround_def afterVertical_def)
  show ?thesis
    unfolding a b c rollTrimStage_rollTrim d e ..
qed

lemma trimState_speed: "speed (afterGround idleControls 0.1 trimState) = 0.988"
  by (simp add: stage_defs trimState_def constructor_def idleControls_def)

lemma trimState_inputs:
  "pitchInput (afterTrim idleControls 0.1 trimState) = 0"
  "rollInput (afterTrim idleControls 0.1 trimState) = 0"
  by (simp_all add: stage_defs trimState_def constructor_def idleControls_def)

section \<open>The stall states\<close>

lemma fastState_fields:
  "speed fastState = 0.5" "vec_y (position fastState) = 10" "throttle fastState = 0"
  "drag fastState = 0" "stallSpeed fastState = 0.3"
  "vec_x (position fastState) = 0" "vec_z (position fastState) = - 50"
  by (simp_all add: fastState_def constructor_def)

lemma slowState_fields:
  "speed slowState = 0.2" "vec_y (position slowState) = 10" "throttle slowState = 0"
  "drag slowState = 0" "stallSpeed slowState = 0.3"
  by (simp_all add: slowState_def constructor_def)

lemma fastState_long_slice: "speed (afterPropulsion idleControls 2 fastState) = 0.26"
proof -
  have "\<not> throttle_ctl idleControls"
    by (simp add: idleControls_def)
  then have "speed (afterPropulsion idleControls 2 fastState)
      = max (max (speed fastState - 0.12 * 2) 0 - drag fastState * 2) 0"
    by (intro afterPropulsion_idle) (simp_all add: fastState_fields)
  then show ?thesis
    by (simp add: fastState_fields)
qed

lemma update_isStalling:
  "isStalling (fst (update controls deltaTime s))
     = (speed (afterPropulsion controls deltaTime s) < stallSpeed s
        \<and> \<not> (\<bar>vec_x (position s)\<bar> < 25 \<and> \<bar>vec_z (position s)\<bar> < 100
              \<and> vec_y (position s) \<le> 0.8 + 0.1)
        \<and> vec_y (position s) > 2)"
  by (auto simp add: afterVertical_isStalling afterVertical_isOnRunway groundHeight_def)

section \<open>Landing gear\<close>

text \<open>
  Claim C7. \<open>update\<close> writes to the caller's control record only at \<open>landingGear\<close>, which
  is \<open>false\<close> on return; the eight other flags come back as they were. The gear state is
  negated when \<open>landingGear\<close> was set at call time and is kept otherwise, so a second call on
  the returned record, whatever its time slice, does not flip the gear again.
\<close>

theorem gear_toggle_controls_frame:
  "snd (update controls deltaTime s) = controls\<lparr>landingGear := False\<rparr>
   \<and> landingGear (snd (update controls deltaTime s)) = False
   \<and> throttle_ctl (snd (update controls deltaTime s)) = throttle_ctl controls
   \<and> brake (snd (update controls deltaTime s)) = brake controls
   \<and> left (snd (update controls deltaTime s)) = left controls
   \<and> right (snd (update controls deltaTime s)) = right controls
   \<and> pitchUp (snd (update controls deltaTime s)) = pitchUp controls
   \<and> pitchDown (snd (update controls deltaTime s)) = pitchDown controls
   \<and> yawLeft (snd (update controls deltaTime s)) = yawLeft controls
   \<and> yawRight (snd (update controls deltaTime s)) = yawRight controls
   \<and> isGearDown (fst (update controls deltaTime s))
       = (if landingGear controls then \<not> isGearDown s else isGearDown s)
   \<and> isGearDown (fst (update (snd (update controls deltaTime s)) deltaTime'
                          (fst (update controls deltaTime s))))
       = isGearDown (fst (update controls deltaTime s))"
proof -
  have c: "snd (update controls deltaTime s) = controls\<lparr>landingGear := False\<rparr>"
    by (simp add: update_snd gearStage_controls)
  show ?thesis
    by (simp add: c isGearDown_update)
qed

text \<open>
  Claim C10. The gear state has no effect on the physics: two states that differ only in
  \<open>isGearDown\<close> are taken by the same call to two states that differ only in
  \<open>isGearDown\<close> (equal to the input's gear state when \<open>landingGear\<close> is not set), and to the
  same control record.
\<close>

theorem gear_noninterference:
  "fst (update controls deltaTime (s\<lparr>isGearDown := g\<rparr>))
     = (fst (update controls deltaTime s))
         \<lparr>isGearDown := (if landingGear controls then \<not> g else g)\<rparr>
   \<and> snd (update controls deltaTime (s\<lparr>isGearDown := g\<rparr>)) = snd (update controls deltaTime s)"
  by (simp add: update_fst update_snd afterAttitude_gear gearStage_def moveStage_gear
      boundsStage_gear)

section \<open>Stall and aerodynamic forces\<close>

text \<open>
  Claim C2, as stated, fails in its last sentence: the speed decays before the stall test,
  so with a long time slice a state at speed 0.5 does stall. From \<open>fastState\<close> (speed 0.5,
  altitude 10, off the runway test because of the altitude, throttle zero) a call with no flag
  set and a time slice of 2 leaves a speed of 0.26 after the propulsion stage, below the
  stall speed, and \<open>isStalling\<close> is true.
\<close>

theorem stall_rule_counterexample:
  "speed fastState = 0.5 \<and> vec_y (position fastState) = 10 \<and> throttle fastState = 0
   \<and> \<not> throttle_ctl idleControls
   \<and> \<not> (\<bar>vec_x (position fastState)\<bar> < 25 \<and> \<bar>vec_z (position fastState)\<bar> < 100
         \<and> vec_y (position fastState) \<le> 0.8 + 0.1)
   \<and> speed (afterPropulsion idleControls 2 fastState) = 0.26
   \<and> isStalling (fst (update idleControls 2 fastState))"
proof -
  have s: "isStalling (fst (update idleControls 2 fastState))"
    unfolding update_isStalling fastState_long_slice by (simp add: fastState_fields)
  have c: "\<not> throttle_ctl idleControls"
    by (simp add: idleControls_def)
  from s c show ?thesis
    by (simp add: fastState_fields fastState_long_slice)
qed

text \<open>
  Claim C2, amended. After one call \<open>isOnRunway\<close> is the geometric test on the position the
  call started from, and \<open>isStalling\<close> holds exactly when the speed after the propulsion
  stage is below \<open>stallSpeed\<close>, the aircraft is not on the runway and its altitude exceeds 2;
  \<open>stallSpeed\<close> is 0.3 from the constructor on and no call changes it. With throttle at
  zero, the throttle flag released, a time slice \<open>\<ge> 0\<close> and a stored drag \<open>\<ge> 0\<close>: a state
  at speed 0.2 and altitude 10 is stalling after the call; a state at speed 0.5 and altitude
  10 is not stalling after the call exactly when \<open>(0.12 + drag) * deltaTime \<le> 0.2\<close>, that
  is, when deceleration and drag take off at most 0.2 before the test.
\<close>

theorem stall_rule:
  "isOnRunway (fst (update controls deltaTime s))
     = (\<bar>vec_x (position s)\<bar> < 25 \<and> \<bar>vec_z (position s)\<bar> < 100
        \<and> vec_y (position s) \<le> 0.8 + 0.1)
   \<and> isStalling (fst (update controls deltaTime s))
     = (speed (afterPropulsion controls deltaTime s) < stallSpeed s
        \<and> \<not> (\<bar>vec_x (position s)\<bar> < 25 \<and> \<bar>vec_z (position s)\<bar> < 100
              \<and> vec_y (position s) \<le> 0.8 + 0.1)
        \<and> vec_y (position s) > 2)
   \<and> stallSpeed (fst (update controls deltaTime s)) = stallSpeed s
   \<and> stallSpeed constructor = 0.3
   \<and> (speed s = 0.2 \<and> vec_y (position s) = 10 \<and> stallSpeed s = 0.3 \<and> throttle s = 0
        \<and> \<not> throttle_ctl controls \<and> 0 \<le> deltaTime \<and> 0 \<le> drag s
      \<longrightarrow> isStalling (fst (update controls deltaTime s)))
   \<and> (speed s = 0.5 \<and> vec_y (position s) = 10 \<and> stallSpeed s = 0.3 \<and> throttle s = 0
        \<and> \<not> throttle_ctl controls \<and> 0 \<le> deltaTime \<and> 0 \<le> drag s
      \<longrightarrow> (\<not> isStalling (fst (update controls deltaTime s))
            \<longleftrightarrow> (0.12 + drag s) * deltaTime \<le> 0.2))"
proof -
  have r: "isOnRunway (fst (update controls deltaTime s))
     = (\<bar>vec_x (position s)\<bar> < 25 \<and> \<bar>vec_z (position s)\<bar> < 100
        \<and> vec_y (position s) \<le> 0.8 + 0.1)"
    by (auto simp add: afterVertical_isOnRunway groundHeight_def)
  note st = update_isStalling [of controls deltaTime s]
  have k: "stallSpeed (fst (update controls deltaTime s)) = stallSpeed s"
    by simp
  have c: "stallSpeed constructor = 0.3"
    by (simp add: constructor_def)
  have slow: "isStalling (fst (update controls deltaTime s))"
    if h: "speed s = 0.2 \<and> vec_y (position s) = 10 \<and> stallSpeed s = 0.3 \<and> throttle s = 0
        \<and> \<not> throttle_ctl controls \<and> 0 \<le> deltaTime \<and> 0 \<le> drag s"
  proof -
    from h have d: "0 \<le> drag s * deltaTime" and e: "0 \<le> 0.12 * deltaTime"
      by simp_all
    from h have sp: "speed s = 0.2"
      by blast
    from h have "speed (afterPropulsion controls deltaTime s)
        = max (max (speed s - 0.12 * deltaTime) 0 - drag s * deltaTime) 0"
      by (simp add: afterPropulsion_idle)
    with d e sp have "speed (afterPropulsion controls deltaTime s) < 0.3"
      by (simp add: max_def)
    with h show ?thesis unfolding st by simp
  qed
  have fast: "\<not> isStalling (fst (update controls deltaTime s))
        \<longleftrightarrow> (0.12 + drag s) * deltaTime \<le> 0.2"
    if h: "speed s = 0.5 \<and> vec_y (position s) = 10 \<and> stallSpeed s = 0.3 \<and> throttle s = 0
        \<and> \<not> throttle_ctl controls \<and> 0 \<le> deltaTime \<and> 0 \<le> drag s"
  proof -
    from h have d: "0 \<le> drag s * deltaTime" and e: "0 \<le> 0.12 * deltaTime"
      by simp_all
    have f: "(0.12 + drag s) * deltaTime = 0.12 * deltaTime + drag s * deltaTime"
      by (simp add: algebra_simps)
    from h have sp: "speed s = 0.5"
      by blast
    from h have "speed (afterPropulsion controls deltaTime s)
        = max (max (speed s - 0.12 * deltaTime) 0 - drag s * deltaTime) 0"
      by (simp add: afterPropulsion_idle)
    with d e sp have "0.3 \<le> speed (afterPropulsion controls deltaTime s)
        \<longleftrightarrow> 0.12 * deltaTime + drag s * deltaTime \<le> 0.2"
      by (auto simp add: max_def)
    then have g: "0.3 \<le> speed (afterPropulsion controls deltaTime s)
        \<longleftrightarrow> (0.12 + drag s) * deltaTime \<le> 0.2"
      unfolding f .
    from h have ss: "stallSpeed s = 0.3" and y: "vec_y (position s) = 10"
      by blast+
    have "isStalling (fst (update controls deltaTime s))
        \<longleftrightarrow> speed (afterPropulsion controls deltaTime s) < 0.3"
      unfolding st ss y by simp
    with g show ?thesis
      by auto
  qed
  from r st k c slow fast show ?thesis by blast
qed

theorem stall_rule_witness:
  "isStalling (fst (update idleControls 0.016 slowState))
   \<and> \<not> isStalling (fst (update idleControls 0.016 fastState))"
proof -
  have a: "speed slowState = 0.2 \<and> vec_y (position slowState) = 10 \<and> stallSpeed slowState = 0.3
      \<and> throttle slowState = 0 \<and> \<not> throttle_ctl idleControls \<and> (0::real) \<le> 0.016
      \<and> 0 \<le> drag slowState"
    by (simp add: slowState_fields idleControls_def)
  have b: "speed fastState = 0.5 \<and> vec_y (position fastState) = 10 \<and> stallSpeed fastState = 0.3
      \<and> throttle fastState = 0 \<and> \<not> throttle_ctl idleControls \<and> (0::real) \<le> 0.016
      \<and> 0 \<le> drag fastState"
    by (simp add: fastState_fields idleControls_def)
  have e: "(0.12 + drag fastState) * 0.016 \<le> 0.2"
    by (simp add: fastState_fields)
  from a stall_rule [of idleControls "0.016" slowState]
  have "isStalling (fst (update idleControls 0.016 slowState))"
    by blast
  moreover from b e stall_rule [of idleControls "0.016" fastState]
  have "\<not> isStalling (fst (update idleControls 0.016 fastState))"
    by blast
  ultimately show ?thesis
    by blast
qed

text \<open>
  Claim C3. The drag stored by a call is the square of the speed after the propulsion stage
  times 0.08; the lift is that square times 0.3 times \<open>max 0.1 effect\<close>, times 0.2 when the
  call found a stall, where \<open>effect\<close> is the piecewise function of the pitch angle. The
  propulsion stage subtracts the drag field as the call found it, that is, the value the
  previous call stored: the drag is recomputed only afterwards.
\<close>

theorem aerodynamic_stage:
  "drag (fst (update controls deltaTime s))
     = speed (afterPropulsion controls deltaTime s) * speed (afterPropulsion controls deltaTime s)
         * 0.08
   \<and> lift (fst (update controls deltaTime s))
     = speed (afterPropulsion controls deltaTime s) * speed (afterPropulsion controls deltaTime s)
         * 0.3 * max 0.1 (angleOfAttackEffect (eul_x (rotation s)))
         * (if isStalling (fst (update controls deltaTime s)) then 0.2 else 1)
   \<and> angleOfAttackEffect a
     = (if a < - 0.3 then 0.2 else if a \<le> 0.35 then 1.0 + 3.0 * a else 2.0 - 2.0 * (a - 0.35))
   \<and> speed (afterPropulsion controls deltaTime s)
     = max ((if throttle (throttleStage controls deltaTime s) > 0
             then min (speed s + throttle (throttleStage controls deltaTime s) * 3.5 * deltaTime)
                      (3.5 * throttle (throttleStage controls deltaTime s))
             else max (speed s - 0.12 * deltaTime) 0)
            - drag s * deltaTime) 0
   \<and> drag (afterPropulsion controls deltaTime s) = drag s"
proof -
  have d: "drag (fst (update controls deltaTime s))
     = speed (afterPropulsion controls deltaTime s) * speed (afterPropulsion controls deltaTime s)
         * 0.08"
    by (simp add: afterVertical_drag)
  have l: "lift (fst (update controls deltaTime s))
     = speed (afterPropulsion controls deltaTime s) * speed (afterPropulsion controls deltaTime s)
         * 0.3 * max 0.1 (angleOfAttackEffect (eul_x (rotation s)))
         * (if isStalling (fst (update controls deltaTime s)) then 0.2 else 1)"
    by (simp add: afterVertical_lift)
  have e: "angleOfAttackEffect a
     = (if a < - 0.3 then 0.2 else if a \<le> 0.35 then 1.0 + 3.0 * a else 2.0 - 2.0 * (a - 0.35))"
    by (simp add: angleOfAttackEffect_def)
  have p: "speed (afterPropulsion controls deltaTime s)
     = max ((if throttle (throttleStage controls deltaTime s) > 0
             then min (speed s + throttle (throttleStage controls deltaTime s) * 3.5 * deltaTime)
                      (3.5 * throttle (throttleStage controls deltaTime s))
             else max (speed s - 0.12 * deltaTime) 0)
            - drag s * deltaTime) 0"
    unfolding afterPropulsion_speed by (simp add: maxSpeed_def)
  show ?thesis
    using d l e p by simp
qed

section \<open>Ground contact\<close>

text \<open>
  Claim C9. When the altitude is below \<open>groundHeight\<close> (0.8) after lift and gravity, the
  ground stage sets it to \<open>max groundHeight 0.5\<close>, and the call ends at altitude 0.8. After
  any call, whatever the time slice, the altitude is at least 0.8, hence at least 0.5 and
  never negative.
\<close>

theorem ground_clamp:
  "(vec_y (position (afterVertical controls deltaTime s)) < 0.8
      \<longrightarrow> vec_y (position (afterGround controls deltaTime s)) = max 0.8 0.5
        \<and> vec_y (position (fst (update controls deltaTime s))) = 0.8)
   \<and> 0.8 \<le> vec_y (position (fst (update controls deltaTime s)))
   \<and> 0.5 \<le> vec_y (position (fst (update controls deltaTime s)))
   \<and> 0 \<le> vec_y (position (fst (update controls deltaTime s)))"
proof -
  have g: "0.8 \<le> vec_y (position (fst (update controls deltaTime s)))"
    using update_y_ground [of controls deltaTime s] by (simp add: groundHeight_def)
  have c: "vec_y (position (afterGround controls deltaTime s)) = max 0.8 0.5
        \<and> vec_y (position (fst (update controls deltaTime s))) = 0.8"
    if "vec_y (position (afterVertical controls deltaTime s)) < 0.8"
    using that by (simp add: update_y afterGround_y groundHeight_def)
  from g c show ?thesis
    by simp
qed

theorem ground_clamp_witness:
  "vec_y (position (afterVertical idleControls 1 offRunwayState)) < 0.8
   \<and> vec_y (position (afterGround idleControls 1 offRunwayState)) = max 0.8 0.5
   \<and> vec_y (position (fst (update idleControls 1 offRunwayState))) = 0.8"
proof -
  have h: "vec_y (position (afterVertical idleControls 1 offRunwayState)) < 0.8"
    by (simp add: stage_defs offRunwayState_def constructor_def idleControls_def)
  with ground_clamp [of idleControls 1 offRunwayState] show ?thesis
    by blast
qed

section \<open>Translation and world bounds\<close>

text \<open>
  Claim C6, as stated, fails: the wrap does not carry the overshoot over. From \<open>wrapState\<close>
  (z = 799, speed 3, level, yaw zero) one call with a time slice of 1 moves z to 801.16, an
  overshoot of 1.16, and line 282 sets z to -800, not to \<open>-800 + overshoot\<close> (-798.84).
\<close>

theorem world_wrap_counterexample:
  "vec_z (position wrapState) = 799 \<and> speed wrapState = 3
   \<and> rotation wrapState = \<lparr> eul_x = 0, eul_y = 0, eul_z = 0 \<rparr>
   \<and> vec_z (position wrapState)
         + vec_z (forwardVector (fst (update idleControls 1 wrapState)))
             * speed (fst (update idleControls 1 wrapState)) = 801.16
   \<and> vec_z (position (fst (update idleControls 1 wrapState))) = - 800
   \<and> vec_z (position (fst (update idleControls 1 wrapState))) \<noteq> - 800 + (801.16 - 800)"
proof -
  have "vec_z (position (fst (update idleControls 1 wrapState))) \<noteq> - 800 + (801.16 - 800)"
    unfolding wrapState_z by simp
  with wrapState_fields wrapState_moved_z wrapState_z show ?thesis
    by blast
qed

text \<open>
  Claim C6, amended. A call moves the position along x and z by the forward vector of the
  new rotation times the new speed (no factor for the time slice), then wraps: a coordinate
  above 800 is set to exactly -800 and one below -800 to exactly 800, whatever the overshoot,
  and any coordinate that is a number is within \<open>[-800, 800]\<close> after the wrap. From
  \<open>wrapState\<close> one call with a time slice of 1 moves z to 801.16, which crosses 800, and ends
  with z = -800. Nothing is said about a coordinate that is NaN.
\<close>

theorem world_wrap:
  "vec_x (position (fst (update controls deltaTime s)))
     = wrapX (vec_x (position s)
         + vec_x (forwardVector (fst (update controls deltaTime s)))
             * speed (fst (update controls deltaTime s)))
   \<and> vec_z (position (fst (update controls deltaTime s)))
     = wrapZ (vec_z (position s)
         + vec_z (forwardVector (fst (update controls deltaTime s)))
             * speed (fst (update controls deltaTime s)))
   \<and> vec_x (forwardVector t) = sin (eul_y (rotation t))
   \<and> vec_z (forwardVector t) = cos (eul_x (rotation t)) * cos (eul_y (rotation t))
   \<and> wrapX p = (if p > 800 then - 800 else if p < - 800 then 800 else p)
   \<and> wrapZ p = (if p > 800 then - 800 else if p < - 800 then 800 else p)
   \<and> - 800 \<le> wrapX p \<and> wrapX p \<le> 800
   \<and> - 800 \<le> wrapZ p \<and> wrapZ p \<le> 800
   \<and> vec_z (position wrapState) = 799 \<and> speed wrapState = 3
   \<and> rotation wrapState = \<lparr> eul_x = 0, eul_y = 0, eul_z = 0 \<rparr>
   \<and> vec_z (position wrapState)
         + vec_z (forwardVector (fst (update idleControls 1 wrapState)))
             * speed (fst (update idleControls 1 wrapState)) = 801.16
   \<and> vec_z (position (fst (update idleControls 1 wrapState))) = - 800"
proof -
  have w: "wrapX p = (if p > 800 then - 800 else if p < - 800 then 800 else p)"
    "wrapZ p = (if p > 800 then - 800 else if p < - 800 then 800 else p)"
    by (simp_all add: wrapX_def wrapZ_def Let_def)
  show ?thesis
    using w wrapX_range [of p] wrapZ_range [of p] wrapState_fields wrapState_moved_z wrapState_z
      update_x [of controls deltaTime s] update_z [of controls deltaTime s]
      forwardVector_xz [of t]
    by blast
qed

section \<open>Throttle ramp\<close>

text \<open>
  Claim C8. A call with the throttle flag held and the brake released sets the throttle to
  \<open>min (throttle + 0.5 * deltaTime) 1\<close>. From throttle 0, calls in steps of 0.016 with the
  flag held give throttle \<open>min (0.008 * n) 1\<close> after \<open>n\<close> calls: exactly 1 after 125 calls,
  and at most 1 after every step.
\<close>

theorem throttle_ramp:
  "(throttle_ctl controls \<and> \<not> brake controls
      \<longrightarrow> throttle (fst (update controls deltaTime s)) = min (throttle s + 0.5 * deltaTime) 1)
   \<and> (throttle s = 0 \<and> (\<forall>c\<in>set cs. throttle_ctl c \<and> \<not> brake c)
      \<longrightarrow> throttle (run (map (\<lambda>c. (c, 0.016)) cs) s) = min (0.008 * real (length cs)) 1
        \<and> (length cs = 125 \<longrightarrow> throttle (run (map (\<lambda>c. (c, 0.016)) cs) s) = 1)
        \<and> (\<forall>n. throttle (run (map (\<lambda>c. (c, 0.016)) (take n cs)) s) \<le> 1))"
proof -
  have one: "throttle (fst (update controls deltaTime s)) = min (throttle s + 0.5 * deltaTime) 1"
    if "throttle_ctl controls \<and> \<not> brake controls"
    using that by (simp add: throttleStage_held)
  have ramp: "throttle (run (map (\<lambda>c. (c, 0.016)) ds) s) = min (0.008 * real (length ds)) 1"
    if "throttle s = 0" and "\<forall>c\<in>set ds. throttle_ctl c \<and> \<not> brake c" for ds
  proof -
    from that have le: "throttle s \<le> 1"
      by simp
    have "throttle (run (map (\<lambda>c. (c, 0.016)) ds) s)
        = min (throttle s + 0.5 * 0.016 * real (length ds)) 1"
      by (rule run_throttle_held [OF that(2) _ le]) simp
    with that(1) show ?thesis
      by simp
  qed
  have many: "throttle (run (map (\<lambda>c. (c, 0.016)) cs) s) = min (0.008 * real (length cs)) 1
        \<and> (length cs = 125 \<longrightarrow> throttle (run (map (\<lambda>c. (c, 0.016)) cs) s) = 1)
        \<and> (\<forall>n. throttle (run (map (\<lambda>c. (c, 0.016)) (take n cs)) s) \<le> 1)"
    if h: "throttle s = 0 \<and> (\<forall>c\<in>set cs. throttle_ctl c \<and> \<not> brake c)"
  proof -
    from h ramp [of cs]
    have a: "throttle (run (map (\<lambda>c. (c, 0.016)) cs) s) = min (0.008 * real (length cs)) 1"
      by blast
    have b: "throttle (run (map (\<lambda>c. (c, 0.016)) (take n cs)) s) \<le> 1" for n
    proof -
      from h have "\<forall>c\<in>set (take n cs). throttle_ctl c \<and> \<not> brake c"
        by (meson in_set_takeD)
      with h ramp [of "take n cs"]
      have "throttle (run (map (\<lambda>c. (c, 0.016)) (take n cs)) s)
          = min (0.008 * real (length (take n cs))) 1"
        by blast
      then show ?thesis by simp
    qed
    from a b show ?thesis by simp
  qed
  from one many show ?thesis
    by blast
qed

theorem throttle_ramp_witness:
  "throttle (run (map (\<lambda>c. (c, 0.016)) (replicate 125 (idleControls\<lparr>throttle_ctl := True\<rparr>)))
      constructor) = 1
   \<and> throttle (fst (update (idleControls\<lparr>throttle_ctl := True\<rparr>) 0.016 constructor)) = 0.008"
proof -
  let ?c = "idleControls\<lparr>throttle_ctl := True\<rparr>"
  have f: "throttle_ctl ?c \<and> \<not> brake ?c"
    by (simp add: idleControls_def)
  have h: "throttle constructor = 0 \<and> (\<forall>c\<in>set (replicate 125 ?c). throttle_ctl c \<and> \<not> brake c)"
    by (simp add: constructor_def idleControls_def)
  have l: "length (replicate 125 ?c) = 125"
    by simp
  from h l throttle_ramp [of ?c "0.016" constructor "replicate 125 ?c"]
  have "throttle (run (map (\<lambda>c. (c, 0.016)) (replicate 125 ?c)) constructor) = 1"
    by blast
  moreover from f throttle_ramp [of ?c "0.016" constructor "[]"]
  have "throttle (fst (update ?c 0.016 constructor)) = min (throttle constructor + 0.5 * 0.016) 1"
    by blast
  then have "throttle (fst (update ?c 0.016 constructor)) = 0.008"
    by (simp add: constructor_def)
  ultimately show ?thesis
    by blast
qed

section \<open>A time slice of zero\<close>

text \<open>
  Claim C4, as stated, fails: a call with a time slice of zero still translates the aircraft
  and recomputes lift and drag. From \<open>taxiState\<close> the call moves z from -50 to -49 and
  changes the drag from 0 to 0.08 and the lift from 0 to 0.3. The same happens in a reachable
  state: after one call from the constructor's state with the throttle held for a time slice
  of 1, a call with a time slice of zero moves z from -48.25 to -46.5.
\<close>

theorem zero_slice_counterexample:
  "vec_z (position taxiState) = - 50
   \<and> vec_z (position (fst (update idleControls 0 taxiState))) = - 49
   \<and> drag taxiState = 0 \<and> drag (fst (update idleControls 0 taxiState)) = 0.08
   \<and> lift taxiState = 0 \<and> lift (fst (update idleControls 0 taxiState)) = 0.3
   \<and> vec_z (position (run [(idleControls\<lparr>throttle_ctl := True\<rparr>, 1)] constructor)) = - 48.25
   \<and> vec_z (position (run [(idleControls\<lparr>throttle_ctl := True\<rparr>, 1), (idleControls, 0)]
         constructor)) = - 46.5"
proof -
  have i: "vec_z (position taxiState) = - 50 \<and> drag taxiState = 0 \<and> lift taxiState = 0"
    by (simp add: taxiState_def constructor_def)
  have z: "vec_z (position (fst (update idleControls 0 taxiState))) = - 49"
    unfolding update_z
    by (simp add: forwardVector_xz taxi_rotation taxi_speed wrapZ_def i)
  have d: "drag (fst (update idleControls 0 taxiState)) = 0.08"
    by (simp add: taxi_drag)
  have l: "lift (fst (update idleControls 0 taxiState)) = 0.3"
    by (simp add: taxi_lift)
  have r1: "vec_z (position (run [(idleControls\<lparr>throttle_ctl := True\<rparr>, 1)] constructor))
      = - 48.25"
    by (simp add: takeoff_call)
  have r2: "vec_z (position (run [(idleControls\<lparr>throttle_ctl := True\<rparr>, 1), (idleControls, 0)]
      constructor)) = - 46.5"
    using takeoff_then_zero_z by simp
  from z d l i r1 r2 show ?thesis
    by blast
qed

text \<open>
  Claim C4, amended. From a state within the bounds that, in exact arithmetic, every
  reachable state satisfies (lemma \<open>reachable_invariant\<close>), a call with a time slice of zero leaves throttle, speed,
  altitude, rotation, angular velocity, the three smoothed inputs and both trims unchanged.
  The gear toggle still fires, and drag and lift are recomputed from the speed and the pitch.
\<close>

theorem zero_slice_frame:
  assumes "0 \<le> throttle s" and "throttle s \<le> 1" and "0 \<le> speed s"
    and "throttle s = 0 \<or> speed s \<le> 3.5 * throttle s"
    and "0.8 \<le> vec_y (position s)" and "vec_y (position s) \<le> 200"
    and "- pi / 3 \<le> eul_x (rotation s)" and "eul_x (rotation s) \<le> pi / 3"
    and "- pi / 2 \<le> eul_z (rotation s)" and "eul_z (rotation s) \<le> pi / 2"
    and "- 0.3 \<le> pitchTrim s" and "pitchTrim s \<le> 0.3"
    and "- 0.2 \<le> rollTrim s" and "rollTrim s \<le> 0.2"
  shows "throttle (fst (update controls 0 s)) = throttle s
    \<and> speed (fst (update controls 0 s)) = speed s
    \<and> vec_y (position (fst (update controls 0 s))) = vec_y (position s)
    \<and> rotation (fst (update controls 0 s)) = rotation s
    \<and> angularVelocity (fst (update controls 0 s)) = angularVelocity s
    \<and> pitchInput (fst (update controls 0 s)) = pitchInput s
    \<and> rollInput (fst (update controls 0 s)) = rollInput s
    \<and> yawInput (fst (update controls 0 s)) = yawInput s
    \<and> pitchTrim (fst (update controls 0 s)) = pitchTrim s
    \<and> rollTrim (fst (update controls 0 s)) = rollTrim s
    \<and> isGearDown (fst (update controls 0 s))
        = (if landingGear controls then \<not> isGearDown s else isGearDown s)
    \<and> landingGear (snd (update controls 0 s)) = False
    \<and> drag (fst (update controls 0 s)) = speed s * speed s * 0.08
    \<and> lift (fst (update controls 0 s))
        = speed s * speed s * 0.3 * max 0.1 (angleOfAttackEffect (eul_x (rotation s)))
            * (if isStalling (fst (update controls 0 s)) then 0.2 else 1)"
proof -
  let ?t = "fst (update controls 0 s)"
  have sp0: "speed (afterPropulsion controls 0 s) = speed s"
    by (rule afterPropulsion_zero [OF assms(1,2,3,4)])
  have th: "throttle ?t = throttle s"
    using assms(1,2) by (simp add: throttleStage_zero)
  have sp: "speed ?t = speed s"
    by (simp add: afterGround_zero [OF assms(5)] sp0)
  have y: "vec_y (position ?t) = vec_y (position s)"
    using assms(6) by (simp add: update_y afterGround_zero [OF assms(5)] afterVertical_y_zero)
  have ro: "rotation ?t = rotation s"
    by (simp add: afterAttitude_rotation_zero [OF assms(7,8,9,10)])
  have av: "angularVelocity ?t = angularVelocity s"
    by (simp add: afterAttitude_angular_zero [OF assms(5)])
  have inp: "pitchInput ?t = pitchInput s \<and> rollInput ?t = rollInput s
      \<and> yawInput ?t = yawInput s"
    by (simp add: afterTrim_inputs_zero [OF assms(5)])
  have tr: "pitchTrim ?t = pitchTrim s \<and> rollTrim ?t = rollTrim s"
    by (simp add: afterTrim_trims_zero [OF assms(5,11,12,13,14)])
  have ge: "isGearDown ?t = (if landingGear controls then \<not> isGearDown s else isGearDown s)"
    by (rule isGearDown_update)
  have lg: "landingGear (snd (update controls 0 s)) = False"
    by (simp add: update_snd gearStage_controls)
  have dr: "drag ?t = speed s * speed s * 0.08"
    by (simp add: afterVertical_drag sp0)
  have li: "lift ?t = speed s * speed s * 0.3 * max 0.1 (angleOfAttackEffect (eul_x (rotation s)))
            * (if isStalling ?t then 0.2 else 1)"
    by (simp add: afterVertical_lift sp0)
  from th sp y ro av inp tr ge lg dr li show ?thesis
    by blast
qed

theorem zero_slice_frame_witness:
  "throttle (fst (update idleControls 0 taxiState)) = throttle taxiState
   \<and> speed (fst (update idleControls 0 taxiState)) = speed taxiState
   \<and> vec_y (position (fst (update idleControls 0 taxiState))) = vec_y (position taxiState)
   \<and> rotation (fst (update idleControls 0 taxiState)) = rotation taxiState
   \<and> angularVelocity (fst (update idleControls 0 taxiState)) = angularVelocity taxiState
   \<and> pitchTrim (fst (update idleControls 0 taxiState)) = pitchTrim taxiState
   \<and> rollTrim (fst (update idleControls 0 taxiState)) = rollTrim taxiState"
proof -
  have "throttle (fst (update idleControls 0 taxiState)) = throttle taxiState
    \<and> speed (fst (update idleControls 0 taxiState)) = speed taxiState
    \<and> vec_y (position (fst (update idleControls 0 taxiState))) = vec_y (position taxiState)
    \<and> rotation (fst (update idleControls 0 taxiState)) = rotation taxiState
    \<and> angularVelocity (fst (update idleControls 0 taxiState)) = angularVelocity taxiState
    \<and> pitchInput (fst (update idleControls 0 taxiState)) = pitchInput taxiState
    \<and> rollInput (fst (update idleControls 0 taxiState)) = rollInput taxiState
    \<and> yawInput (fst (update idleControls 0 taxiState)) = yawInput taxiState
    \<and> pitchTrim (fst (update idleControls 0 taxiState)) = pitchTrim taxiState
    \<and> rollTrim (fst (update idleControls 0 taxiState)) = rollTrim taxiState
    \<and> isGearDown (fst (update idleControls 0 taxiState))
        = (if landingGear idleControls then \<not> isGearDown taxiState else isGearDown taxiState)
    \<and> landingGear (snd (update idleControls 0 taxiState)) = False
    \<and> drag (fst (update idleControls 0 taxiState)) = speed taxiState * speed taxiState * 0.08
    \<and> lift (fst (update idleControls 0 taxiState))
        = speed taxiState * speed taxiState * 0.3
            * max 0.1 (angleOfAttackEffect (eul_x (rotation taxiState)))
            * (if isStalling (fst (update idleControls 0 taxiState)) then 0.2 else 1)"
    by (rule zero_slice_frame) (simp_all add: taxiState_def constructor_def)
  then show ?thesis
    by blast
qed

section \<open>Auto-trim\<close>

text \<open>
  Claim C5. When the smoothed input is below 0.1 in absolute value and the speed exceeds 0.4,
  the trim stage adds the angle times the rate to the trim and clamps the sum; otherwise it
  keeps the trim. Adding \<open>angle * rate\<close> does not move the trim toward the angle: from
  \<open>trimState\<close> (pitch 0.1, pitch trim 0.2, roll 0.05, roll trim 0.1) a call with a time
  slice of 0.1 takes the pitch trim to 0.203 and the roll trim to 0.1025, both farther from
  the angle than before.
\<close>

theorem auto_trim:
  "pitchTrim (fst (update controls deltaTime s))
     = (if \<bar>pitchInput (fst (update controls deltaTime s))\<bar> < 0.1
           \<and> speed (fst (update controls deltaTime s)) > 0.4
        then max (- 0.3) (min 0.3 (pitchTrim s + eul_x (rotation s) * (0.3 * deltaTime)))
        else pitchTrim s)
   \<and> rollTrim (fst (update controls deltaTime s))
     = (if \<bar>rollInput (fst (update controls deltaTime s))\<bar> < 0.1
           \<and> speed (fst (update controls deltaTime s)) > 0.4
        then max (- 0.2) (min 0.2 (rollTrim s + eul_z (rotation s) * (0.5 * deltaTime)))
        else rollTrim s)
   \<and> eul_x (rotation trimState) = 0.1 \<and> pitchTrim trimState = 0.2
   \<and> pitchTrim (fst (update idleControls 0.1 trimState)) = 0.203
   \<and> \<bar>pitchTrim trimState - eul_x (rotation trimState)\<bar>
       < \<bar>pitchTrim (fst (update idleControls 0.1 trimState)) - eul_x (rotation trimState)\<bar>
   \<and> eul_z (rotation trimState) = 0.05 \<and> rollTrim trimState = 0.1
   \<and> rollTrim (fst (update idleControls 0.1 trimState)) = 0.1025
   \<and> \<bar>rollTrim trimState - eul_z (rotation trimState)\<bar>
       < \<bar>rollTrim (fst (update idleControls 0.1 trimState)) - eul_z (rotation trimState)\<bar>"
proof -
  have i: "eul_x (rotation trimState) = 0.1 \<and> pitchTrim trimState = 0.2
      \<and> eul_z (rotation trimState) = 0.05 \<and> rollTrim trimState = 0.1"
    by (simp add: trimState_def constructor_def)
  have p: "pitchTrim (fst (update idleControls 0.1 trimState)) = 0.203"
    unfolding update_pitchTrim by (simp add: trimState_speed trimState_inputs i)
  have r: "rollTrim (fst (update idleControls 0.1 trimState)) = 0.1025"
    unfolding update_rollTrim by (simp add: trimState_speed trimState_inputs i)
  have pd: "\<bar>pitchTrim trimState - eul_x (rotation trimState)\<bar>
       < \<bar>pitchTrim (fst (update idleControls 0.1 trimState)) - eul_x (rotation trimState)\<bar>"
    unfolding p using i by simp
  have rd: "\<bar>rollTrim trimState - eul_z (rotation trimState)\<bar>
       < \<bar>rollTrim (fst (update idleControls 0.1 trimState)) - eul_z (rotation trimState)\<bar>"
    unfolding r using i by simp
  from i p r pd rd update_pitchTrim [of controls deltaTime s]
    update_rollTrim [of controls deltaTime s]
  show ?thesis
    by blast
qed

end
